theory Spec2Isabelle
  imports Main "HOL-Library.Char_ord" "HOL-Library.List_Lexorder" "HOL-Library.AList"
    "HOL-Library.Multiset"
begin

section \<open>JavaScript values\<close>

text \<open>
  The engine of \<^verbatim>\<open>scripts/notion-sync.js\<close> works on values read with \<^verbatim>\<open>JSON.parse\<close>:
  jobs, contacts and tasks are plain objects whose set of keys is not fixed. They are
  modelled as they are, as JSON values; an object is an association list in insertion
  order with distinct keys, and a property that is absent reads as \<open>None\<close>
  (JavaScript's \<^verbatim>\<open>undefined\<close>). Numbers are restricted to integers. Strings are
  \<open>char list\<close>; the order on them is the lexicographic order on character codes, as
  JavaScript's \<^verbatim>\<open><\<close> and the default \<^verbatim>\<open>Array.prototype.sort\<close> compare code units.
\<close>

datatype json =
    JNull
  | JBool bool
  | JNum int
  | JStr string
  | JArr "json list"
  | JObj "(string \<times> json) list"

type_synonym obj = "(string \<times> json) list"

text \<open>\<^verbatim>\<open>o[k]\<close> on a plain object, and \<^verbatim>\<open>o[k] = v\<close> (an existing key keeps its place).\<close>

definition jget :: "obj \<Rightarrow> string \<Rightarrow> json option" where
  "jget ob k = map_of ob k"

definition jset :: "obj \<Rightarrow> string \<Rightarrow> json \<Rightarrow> obj" where
  "jset ob k v = AList.update k v ob"

text \<open>Truthiness, as \<^verbatim>\<open>if (x)\<close>, \<^verbatim>\<open>!x\<close> and \<^verbatim>\<open>x || y\<close> read it.\<close>

fun truthy :: "json option \<Rightarrow> bool" where
  "truthy None = False"
| "truthy (Some JNull) = False"
| "truthy (Some (JBool b)) = b"
| "truthy (Some (JNum n)) = (n \<noteq> 0)"
| "truthy (Some (JStr s)) = (s \<noteq> [])"
| "truthy (Some (JArr xs)) = True"
| "truthy (Some (JObj kvs)) = True"

definition js_or :: "json option \<Rightarrow> json option \<Rightarrow> json option" where
  "js_or a b = (if truthy a then a else b)"

fun intercalate :: "string \<Rightarrow> string list \<Rightarrow> string" where
  "intercalate sep [] = []"
| "intercalate sep [x] = x"
| "intercalate sep (x # y # ys) = x @ sep @ intercalate sep (y # ys)"

definition digit_char :: "nat \<Rightarrow> char" where
  "digit_char d = char_of (48 + d)"

function show_nat :: "nat \<Rightarrow> string" where
  "show_nat n = (if n < 10 then [digit_char n] else show_nat (n div 10) @ [digit_char (n mod 10)])"
  by pat_completeness auto
termination
  by (relation "measure (\<lambda>n. n)") auto

definition show_int :: "int \<Rightarrow> string" where
  "show_int i = (if i < 0 then CHR ''-'' # show_nat (nat (- i)) else show_nat (nat i))"

text \<open>
  \<^verbatim>\<open>`${x}`\<close>: the string a template literal (or a property key) makes of a value.
  An array joins its elements with commas, \<^verbatim>\<open>null\<close> elements giving the empty string.
\<close>

fun to_str :: "json \<Rightarrow> string" where
  "to_str JNull = ''null''"
| "to_str (JBool b) = (if b then ''true'' else ''false'')"
| "to_str (JNum n) = show_int n"
| "to_str (JStr s) = s"
| "to_str (JArr xs) = intercalate '','' (map (\<lambda>x. if x = JNull then [] else to_str x) xs)"
| "to_str (JObj kvs) = ''[object Object]''"

definition js_string :: "json option \<Rightarrow> string" where
  "js_string v = (case v of None \<Rightarrow> ''undefined'' | Some j \<Rightarrow> to_str j)"

section \<open>Canonical hash\<close>

text \<open>
  \<^verbatim>\<open>JSON.stringify(item, Object.keys(item).sort())\<close>. The second argument is an array,
  so it is the property list of the serialization: \<^emph>\<open>every\<close> object met, the item and
  the objects nested in it, is written with exactly the properties of that list that it
  has, in the order of the list. Arrays are written element by element.
\<close>

definition hex_char :: "int \<Rightarrow> char" where
  "hex_char d = (if d < 10 then char_of (48 + d) else char_of (87 + d))"

definition escape_char :: "char \<Rightarrow> string" where
  "escape_char c =
     (let n = (of_char c :: int) in
      if n = 0x22 then [CHR 0x5C, CHR 0x22]
      else if n = 0x5C then [CHR 0x5C, CHR 0x5C]
      else if n = 0x08 then [CHR 0x5C, CHR ''b'']
      else if n = 0x09 then [CHR 0x5C, CHR ''t'']
      else if n = 0x0A then [CHR 0x5C, CHR ''n'']
      else if n = 0x0C then [CHR 0x5C, CHR ''f'']
      else if n = 0x0D then [CHR 0x5C, CHR ''r'']
      else if n < 0x20 then [CHR 0x5C, CHR ''u'', CHR ''0'', CHR ''0'', hex_char (n div 16), hex_char (n mod 16)]
      else [c])"

definition quote :: "string \<Rightarrow> string" where
  "quote s = CHR 0x22 # concat (map escape_char s) @ [CHR 0x22]"

fun serialize :: "string list \<Rightarrow> json \<Rightarrow> string" where
  "serialize K JNull = ''null''"
| "serialize K (JBool b) = (if b then ''true'' else ''false'')"
| "serialize K (JNum n) = show_int n"
| "serialize K (JStr s) = quote s"
| "serialize K (JArr xs) = ''['' @ intercalate '','' (map (serialize K) xs) @ '']''"
| "serialize K (JObj kvs) =
     (let members = map (\<lambda>(k, v). (k, serialize K v)) kvs
      in ''{'' @ intercalate '',''
           (List.map_filter (\<lambda>k. map_option (\<lambda>s. quote k @ '':'' @ s) (map_of members k)) K)
         @ ''}'')"

definition object_keys :: "obj \<Rightarrow> string list" where
  "object_keys ob = remdups (map fst ob)"

text \<open>
  \<^verbatim>\<open>hashItem\<close>. The SHA-256 hex digest comes from Node's \<^verbatim>\<open>crypto\<close> library and is a
  parameter of the model; the first 16 hex digits of it are kept.
\<close>

definition hashItem :: "(string \<Rightarrow> string) \<Rightarrow> obj \<Rightarrow> string" where
  "hashItem sha256 item = take 16 (sha256 (serialize (sort (object_keys item)) (JObj item)))"

section \<open>Interaction parsing and merge\<close>

text \<open>
  What the code raises is a value of the model: a \<^verbatim>\<open>TypeError\<close> of the engine, a
  rejected request (\<^verbatim>\<open>Notion API error\<close>), a response that does not parse, a
  transport error, or a failed file-system call.
\<close>

datatype error = TypeError | ApiError string | ParseError string | NetworkError string | FsError

text \<open>\<^verbatim>\<open>x.k\<close> on a value that need not be an object (\<^verbatim>\<open>null.k\<close> raises; see the callers).\<close>

definition jprop :: "json \<Rightarrow> string \<Rightarrow> json option" where
  "jprop j k = (case j of JObj kvs \<Rightarrow> jget kvs k | _ \<Rightarrow> None)"

text \<open>
  The character classes of the regular expression
  \<^verbatim>\<open>/^\[(\d{4}-\d{2}-\d{2})\]\s+(\w+):\s+(.+)$/\<close> and of \<^verbatim>\<open>trim\<close>, on character codes
  below 128 (the white space of Unicode beyond ASCII is not modelled).
\<close>

definition is_space :: "char \<Rightarrow> bool" where
  "is_space c = ((of_char c :: int) \<in> {0x09, 0x0A, 0x0B, 0x0C, 0x0D, 0x20})"

definition is_line_terminator :: "char \<Rightarrow> bool" where
  "is_line_terminator c = ((of_char c :: int) \<in> {0x0A, 0x0D})"

definition is_digit :: "char \<Rightarrow> bool" where
  "is_digit c = (let n = (of_char c :: int) in 0x30 \<le> n \<and> n \<le> 0x39)"

definition is_word :: "char \<Rightarrow> bool" where
  "is_word c = (let n = (of_char c :: int) in
     (0x30 \<le> n \<and> n \<le> 0x39) \<or> (0x41 \<le> n \<and> n \<le> 0x5A) \<or> (0x61 \<le> n \<and> n \<le> 0x7A) \<or> n = 0x5F)"

definition js_trim :: "string \<Rightarrow> string" where
  "js_trim s = rev (dropWhile is_space (rev (dropWhile is_space s)))"

text \<open>\<^verbatim>\<open>s.split(c)\<close> for a one-character separator.\<close>

fun split_on :: "char \<Rightarrow> string \<Rightarrow> string list" where
  "split_on c [] = [[]]"
| "split_on c (x # xs) =
     (if x = c then [] # split_on c xs
      else (case split_on c xs of y # ys \<Rightarrow> (x # y) # ys | [] \<Rightarrow> [[x]]))"

fun is_date :: "string \<Rightarrow> bool" where
  "is_date [y1, y2, y3, y4, h1, m1, m2, h2, d1, d2] =
     (is_digit y1 \<and> is_digit y2 \<and> is_digit y3 \<and> is_digit y4 \<and> h1 = CHR ''-'' \<and>
      is_digit m1 \<and> is_digit m2 \<and> h2 = CHR ''-'' \<and> is_digit d1 \<and> is_digit d2)"
| "is_date _ = False"

text \<open>
  The matcher follows the expression from left to right. \<^verbatim>\<open>\s+(.+)$\<close>: the white space
  is taken greedily, giving back one character when nothing else is left for the
  summary; the summary runs to the end of the line and holds no line terminator.
\<close>

definition match_summary :: "string \<Rightarrow> string option" where
  "match_summary r =
     (let ws = takeWhile is_space r; rest = dropWhile is_space r in
      if ws = [] then None
      else if rest \<noteq> [] then (if list_ex is_line_terminator rest then None else Some rest)
      else if 2 \<le> length ws \<and> \<not> is_line_terminator (last ws) then Some [last ws]
      else None)"

definition match_type :: "string \<Rightarrow> (string \<times> string) option" where
  "match_type r =
     (let ws = takeWhile is_space r; r1 = dropWhile is_space r;
          ty = takeWhile is_word r1; r2 = dropWhile is_word r1 in
      if ws = [] \<or> ty = [] then None
      else (case r2 of [] \<Rightarrow> None
            | c # r3 \<Rightarrow> if c = CHR '':'' then map_option (Pair ty) (match_summary r3) else None))"

definition match_line :: "string \<Rightarrow> (string \<times> string \<times> string) option" where
  "match_line l =
     (case l of [] \<Rightarrow> None
      | c # r \<Rightarrow>
          if c \<noteq> CHR ''['' \<or> \<not> is_date (take 10 r) then None
          else (case drop 10 r of [] \<Rightarrow> None
                | c' # r' \<Rightarrow>
                    if c' = CHR '']'' then map_option (Pair (take 10 r)) (match_type r') else None))"

definition parseInteractionsFromNotes :: "string \<Rightarrow> json list" where
  "parseInteractionsFromNotes text =
     (if text = [] then []
      else List.map_filter
             (\<lambda>line. map_option (\<lambda>(d, t, s). JObj [(''date'', JStr d), (''type'', JStr t), (''summary'', JStr s)])
                        (match_line (js_trim line)))
             (split_on (CHR 0x0A) text))"


definition ikey :: "json \<Rightarrow> string" where
  "ikey i = js_string (jprop i ''date'') @ ''|'' @ js_string (jprop i ''type'') @ ''|''
            @ js_string (jprop i ''summary'')"

definition idate :: "json \<Rightarrow> string option" where
  "idate i = (case jprop i ''date'' of Some (JStr s) \<Rightarrow> Some s | _ \<Rightarrow> None)"

definition date_str :: "json \<Rightarrow> string" where
  "date_str i = (case idate i of Some s \<Rightarrow> s | None \<Rightarrow> [])"

fun add_parsed :: "string list \<Rightarrow> json list \<Rightarrow> json list \<Rightarrow> json list" where
  "add_parsed existingKeys merged [] = merged"
| "add_parsed existingKeys merged (i # parsed) =
     (if ikey i \<in> set existingKeys then add_parsed existingKeys merged parsed
      else add_parsed (existingKeys @ [ikey i]) (merged @ [i]) parsed)"

text \<open>
  \<^verbatim>\<open>mergeInteractions\<close>. Reading \<^verbatim>\<open>i.date\<close> of a \<^verbatim>\<open>null\<close> element raises. The final
  \<^verbatim>\<open>merged.sort((a, b) => a.date.localeCompare(b.date))\<close> is a stable sort; on dates
  of the form \<^verbatim>\<open>YYYY-MM-DD\<close> \<^verbatim>\<open>localeCompare\<close> is the order on character codes, which
  is the order of the model. The comparator raises on a first argument whose date is not
  a string; the model raises whenever such an element takes part in a sort of two or
  more elements.
\<close>

definition mergeInteractions :: "json list \<Rightarrow> string \<Rightarrow> error + json list" where
  "mergeInteractions existing notesText =
     (let parsed = parseInteractionsFromNotes notesText in
      if parsed = [] then Inr existing
      else if JNull \<in> set existing then Inl TypeError
      else
        let merged = add_parsed (map ikey existing) existing parsed in
        if 2 \<le> length merged \<and> list_ex (\<lambda>i. idate i = None) merged then Inl TypeError
        else Inr (sort_key date_str merged))"

section \<open>Run flags and sync map\<close>

record flags =
  DRY_RUN :: bool
  PULL_ONLY :: bool
  PUSH_ONLY :: bool
  FULL_SYNC :: bool
  APPLY_DELETES :: bool

text \<open>
  A Sync State Entry. \<open>None\<close> stands for a field that is \<^verbatim>\<open>null\<close> or absent; job
  entries also carry the company and role they were written with. The remote answers
  with string identifiers and times (its contract); any other value is read as absent.
\<close>

record sync_entry =
  notionId :: "string option"
  localHash :: "string option"
  notionLastEdited :: "string option"
  entryCompany :: "json option"
  entryRole :: "json option"

record rev_entry =
  etype :: string
  ekey :: string

text \<open>
  The sync map, \<^verbatim>\<open>{lastSyncTime, jobs, contacts, tasks, notionToLocal}\<close>. Its objects are
  association lists in insertion order (\<^verbatim>\<open>Object.entries\<close> lists keys that look like
  array indices first; the order only decides in which order deletion candidates are
  handled). Keys are assumed not to be names every JavaScript object inherits.
\<close>

record syncmap =
  lastSyncTime :: "string option"
  jobs :: "(string \<times> sync_entry) list"
  contacts :: "(string \<times> sync_entry) list"
  tasks :: "(string \<times> sync_entry) list"
  notionToLocal :: "(string \<times> rev_entry) list"

datatype entity = Jobs | Contacts | Tasks

fun entity_name :: "entity \<Rightarrow> string" where
  "entity_name Jobs = ''jobs''"
| "entity_name Contacts = ''contacts''"
| "entity_name Tasks = ''tasks''"

fun entries :: "entity \<Rightarrow> syncmap \<Rightarrow> (string \<times> sync_entry) list" where
  "entries Jobs m = jobs m"
| "entries Contacts m = contacts m"
| "entries Tasks m = tasks m"

fun set_entries :: "entity \<Rightarrow> (string \<times> sync_entry) list \<Rightarrow> syncmap \<Rightarrow> syncmap" where
  "set_entries Jobs es m = m\<lparr>jobs := es\<rparr>"
| "set_entries Contacts es m = m\<lparr>contacts := es\<rparr>"
| "set_entries Tasks es m = m\<lparr>tasks := es\<rparr>"

text \<open>Truthiness of a string-or-null field.\<close>

definition present :: "string option \<Rightarrow> bool" where
  "present v = (case v of None \<Rightarrow> False | Some s \<Rightarrow> s \<noteq> [])"

section \<open>Remote transport with retry\<close>

text \<open>
  One HTTP exchange answers with a status code, the \<^verbatim>\<open>retry-after\<close> header if any, and
  a body; \<open>body_json\<close> is \<^verbatim>\<open>JSON.parse\<close> of the body, \<open>None\<close> when it throws. The transport
  may also fail without an answer. The remote is an oracle: \<open>remote n\<close> is what the
  \<open>n\<close>-th request of the push phase is answered with, every attempt counted (the
  requests of the schema check and of the fetches come before), so quantifying over it
  covers every behaviour of the remote. A request is its method, its endpoint and what its body
  carries: the properties of a local record (with the bucket status of a job), a new
  page of them in a database, the archive mark, or a query for the pages edited after
  a time, from a cursor on. The conversion of a record into
  remote properties has no part in the control flow and is not modelled.
\<close>

record response =
  statusCode :: int
  retry_after :: "string option"
  body_text :: string
  body_json :: "json option"

datatype exchange = Reply response | Failed string

datatype payload =
    Properties obj string
  | NewPage string obj string
  | Archived
  | Query "string option" "json option"

type_synonym request = "string \<times> string \<times> payload"

text \<open>
  The requests sent so far, every attempt counted, and the waits made: a wait is a number
  of milliseconds, \<open>None\<close> when the computed delay is \<^verbatim>\<open>NaN\<close>.
\<close>

record net =
  sent :: "request list"
  waits :: "int option list"

definition MAX_RETRIES :: nat where
  "MAX_RETRIES = 3"

text \<open>\<^verbatim>\<open>parseInt(s, 10)\<close>: leading white space, a sign, then digits; \<open>None\<close> is \<^verbatim>\<open>NaN\<close>.\<close>

definition digits_value :: "string \<Rightarrow> int" where
  "digits_value ds = foldl (\<lambda>acc c. 10 * acc + (of_char c - 48)) 0 ds"

definition parseInt10 :: "string \<Rightarrow> int option" where
  "parseInt10 s =
     (let s1 = dropWhile is_space s;
          neg = (s1 \<noteq> [] \<and> hd s1 = CHR ''-'');
          s2 = (if s1 \<noteq> [] \<and> (hd s1 = CHR ''-'' \<or> hd s1 = CHR ''+'') then tl s1 else s1);
          ds = takeWhile is_digit s2
      in if ds = [] then None
         else Some (if neg then - digits_value ds else digits_value ds))"

text \<open>
  \<^verbatim>\<open>const retryAfter = parseInt(res.headers['retry-after'] || '1', 10);\<close>
  \<^verbatim>\<open>const waitMs = retryAfter * 1000 + (attempt + 1) * 500;\<close>
\<close>

definition retry_hint :: "response \<Rightarrow> int option" where
  "retry_hint res = parseInt10 (if present (retry_after res) then the (retry_after res) else ''1'')"

definition waitMs :: "response \<Rightarrow> nat \<Rightarrow> int option" where
  "waitMs res attempt = map_option (\<lambda>retryAfter. retryAfter * 1000 + (int attempt + 1) * 500) (retry_hint res)"

text \<open>
  What a final answer resolves or rejects with. Reading \<^verbatim>\<open>json.message\<close> of a body that
  parsed to \<^verbatim>\<open>null\<close> raises inside the \<^verbatim>\<open>try\<close>, which reports a parse failure.
\<close>

definition settle :: "response \<Rightarrow> error + json" where
  "settle res =
     (case body_json res of
        None \<Rightarrow> Inl (ParseError (body_text res))
      | Some js \<Rightarrow>
          if 400 \<le> statusCode res then
            (if js = JNull then Inl (ParseError (body_text res))
             else Inl (ApiError (show_int (statusCode res) @ '': ''
                        @ js_string (js_or (jprop js ''message'') (Some (JStr (body_text res)))))))
          else Inr js)"

function notionRequestWithRetry ::
  "(nat \<Rightarrow> exchange) \<Rightarrow> request \<Rightarrow> nat \<Rightarrow> net \<Rightarrow> (error + json) \<times> net" where
  "notionRequestWithRetry remote rq attempt st =
     (case remote (length (sent st)) of
        Failed msg \<Rightarrow> (Inl (NetworkError msg), st\<lparr>sent := sent st @ [rq]\<rparr>)
      | Reply res \<Rightarrow>
          if statusCode res = 429 \<and> attempt < MAX_RETRIES then
            notionRequestWithRetry remote rq (attempt + 1)
              (st\<lparr>sent := sent st @ [rq], waits := waits st @ [waitMs res attempt]\<rparr>)
          else (settle res, st\<lparr>sent := sent st @ [rq]\<rparr>))"
  by pat_completeness auto
termination
  by (relation "measure (\<lambda>(remote, rq, attempt, st). MAX_RETRIES - attempt)") auto

definition notionRequest :: "(nat \<Rightarrow> exchange) \<Rightarrow> request \<Rightarrow> net \<Rightarrow> (error + json) \<times> net" where
  "notionRequest remote rq st = notionRequestWithRetry remote rq 0 st"

text \<open>\<^verbatim>\<open>await new Promise(r => setTimeout(r, 350))\<close> between consecutive writes.\<close>

definition pause :: "net \<Rightarrow> net" where
  "pause st = st\<lparr>waits := waits st @ [Some 350]\<rparr>"




section \<open>Local collections\<close>

text \<open>
  \<^verbatim>\<open>tracker.json\<close> holds the three buckets of jobs, \<^verbatim>\<open>network.json\<close> the contacts and
  \<^verbatim>\<open>tasks.json\<close> the tasks; a missing array reads as the empty one
  (\<^verbatim>\<open>network.contacts || []\<close>).
\<close>

record tracker =
  active :: "obj list"
  skipped :: "obj list"
  closed :: "obj list"

record config =
  jobs_db :: "string option"
  contacts_db :: "string option"
  tasks_db :: "string option"

fun database :: "entity \<Rightarrow> config \<Rightarrow> string option" where
  "database Jobs c = jobs_db c"
| "database Contacts c = contacts_db c"
| "database Tasks c = tasks_db c"

definition getJobLocalId :: "obj \<Rightarrow> string \<Rightarrow> string" where
  "getJobLocalId job status =
     status @ '':'' @ js_string (jget job ''company'') @ '':'' @ js_string (jget job ''role'')"

text \<open>
  The local id of a record as the push pass computes it: \<^verbatim>\<open>getJobLocalId(job, status)\<close>,
  \<^verbatim>\<open>contact.id || contact.name\<close>, \<^verbatim>\<open>task.id || task.task\<close>. Used as a property key it is
  converted to a string.
\<close>

fun local_id :: "entity \<Rightarrow> obj \<Rightarrow> string \<Rightarrow> json option" where
  "local_id Jobs item status = Some (JStr (getJobLocalId item status))"
| "local_id Contacts item status = js_or (jget item ''id'') (jget item ''name'')"
| "local_id Tasks item status = js_or (jget item ''id'') (jget item ''task'')"

definition local_key :: "entity \<Rightarrow> obj \<times> string \<Rightarrow> string" where
  "local_key ent x = js_string (local_id ent (fst x) (snd x))"

definition str_field :: "json \<Rightarrow> string \<Rightarrow> string option" where
  "str_field j k = (case jprop j k of Some (JStr s) \<Rightarrow> Some s | _ \<Rightarrow> None)"

section \<open>Push: local to remote\<close>

record push_state =
  smap :: syncmap
  pnet :: net
  created :: nat
  updated :: nat
  unchanged :: nat
  errors :: nat
  localKeys :: "json option list"

definition with_job_fields :: "entity \<Rightarrow> obj \<Rightarrow> sync_entry \<Rightarrow> sync_entry" where
  "with_job_fields ent item e =
     (if ent = Jobs then e\<lparr>entryCompany := jget item ''company'', entryRole := jget item ''role''\<rparr>
      else e)"

text \<open>The writes of the update branch before the remote edit time is read, and all of them.\<close>

definition mark_pushed :: "entity \<Rightarrow> string \<Rightarrow> string \<Rightarrow> string \<Rightarrow> syncmap \<Rightarrow> syncmap" where
  "mark_pushed ent localId nid h m =
     set_entries ent
       (AList.map_entry localId (\<lambda>e. e\<lparr>notionId := Some nid, localHash := Some h\<rparr>) (entries ent m)) m"

definition record_update ::
  "entity \<Rightarrow> string \<Rightarrow> string \<Rightarrow> string \<Rightarrow> obj \<Rightarrow> json \<Rightarrow> syncmap \<Rightarrow> syncmap" where
  "record_update ent localId nid h item result m =
     set_entries ent
       (AList.map_entry localId
          (\<lambda>e. with_job_fields ent item
                 (e\<lparr>notionId := Some nid, localHash := Some h,
                    notionLastEdited := str_field result ''last_edited_time''\<rparr>))
          (entries ent m)) m"

definition record_create :: "entity \<Rightarrow> string \<Rightarrow> string \<Rightarrow> obj \<Rightarrow> json \<Rightarrow> syncmap \<Rightarrow> syncmap" where
  "record_create ent localId h item result m =
     (set_entries ent
        (AList.update localId
           (with_job_fields ent item
              \<lparr>notionId = str_field result ''id'', localHash = Some h,
               notionLastEdited = str_field result ''last_edited_time'',
               entryCompany = None, entryRole = None\<rparr>)
           (entries ent m)) m)
     \<lparr>notionToLocal :=
        AList.update (js_string (jprop result ''id''))
          \<lparr>etype = entity_name ent, ekey = localId\<rparr> (notionToLocal m)\<rparr>"

text \<open>\<^verbatim>\<open>syncEntry?.localHash === currentHash && syncEntry.notionId\<close>.\<close>

definition up_to_date :: "string \<Rightarrow> sync_entry option \<Rightarrow> bool" where
  "up_to_date currentHash syncEntry =
     (case syncEntry of None \<Rightarrow> False
      | Some e \<Rightarrow> localHash e = Some currentHash \<and> present (notionId e))"

text \<open>
  The body of the loop of \<^verbatim>\<open>pushJobs\<close>, \<^verbatim>\<open>pushContacts\<close> and \<^verbatim>\<open>pushTasks\<close>, which differ
  in the local id, the database and the two extra fields of a job entry. A rejected
  request, and a \<^verbatim>\<open>TypeError\<close> on a \<^verbatim>\<open>null\<close> result, are caught: the error is logged
  and counted and the loop goes on.
\<close>

definition push_item ::
  "flags \<Rightarrow> (string \<Rightarrow> string) \<Rightarrow> (nat \<Rightarrow> exchange) \<Rightarrow> entity \<Rightarrow> string
   \<Rightarrow> obj \<times> string \<Rightarrow> push_state \<Rightarrow> push_state" where
  "push_item fl sha256 remote ent dbId x st =
     (let item = fst x; status = snd x;
          localId = local_key ent x;
          st1 = st\<lparr>localKeys := localKeys st @ [local_id ent item status]\<rparr>;
          syncEntry = map_of (entries ent (smap st)) localId;
          currentHash = hashItem sha256 item
      in
      if \<not> FULL_SYNC fl \<and> up_to_date currentHash syncEntry
      then st1\<lparr>unchanged := unchanged st1 + 1\<rparr>
      else if DRY_RUN fl then st1
      else
        (case (case syncEntry of None \<Rightarrow> None
               | Some e \<Rightarrow> if present (notionId e) then notionId e else None) of
           Some nid \<Rightarrow>
             (case notionRequest remote (''PATCH'', ''/pages/'' @ nid, Properties item status) (pnet st1) of
                (Inl err, n') \<Rightarrow> st1\<lparr>pnet := n', errors := errors st1 + 1\<rparr>
              | (Inr result, n') \<Rightarrow>
                  if result = JNull then
                    st1\<lparr>smap := mark_pushed ent localId nid currentHash (smap st1),
                        pnet := n', errors := errors st1 + 1\<rparr>
                  else
                    st1\<lparr>smap := record_update ent localId nid currentHash item result (smap st1),
                        pnet := pause n', updated := updated st1 + 1\<rparr>)
         | None \<Rightarrow>
             (case notionRequest remote (''POST'', ''/pages'', NewPage dbId item status) (pnet st1) of
                (Inl err, n') \<Rightarrow> st1\<lparr>pnet := n', errors := errors st1 + 1\<rparr>
              | (Inr result, n') \<Rightarrow>
                  if result = JNull then st1\<lparr>pnet := n', errors := errors st1 + 1\<rparr>
                  else
                    st1\<lparr>smap := record_create ent localId currentHash item result (smap st1),
                        pnet := pause n', created := created st1 + 1\<rparr>)))"

fun push_items ::
  "flags \<Rightarrow> (string \<Rightarrow> string) \<Rightarrow> (nat \<Rightarrow> exchange) \<Rightarrow> entity \<Rightarrow> string
   \<Rightarrow> (obj \<times> string) list \<Rightarrow> push_state \<Rightarrow> push_state" where
  "push_items fl sha256 remote ent dbId [] st = st"
| "push_items fl sha256 remote ent dbId (x # xs) st =
     push_items fl sha256 remote ent dbId xs (push_item fl sha256 remote ent dbId x st)"

section \<open>Deletion detection and handling\<close>

definition detectLocalDeletions ::
  "syncmap \<Rightarrow> entity \<Rightarrow> json option list \<Rightarrow> (string \<times> string) list" where
  "detectLocalDeletions m ent currentLocalKeys =
     map (\<lambda>(k, e). (k, the (notionId e)))
       (filter (\<lambda>(k, e). Some (JStr k) \<notin> set currentLocalKeys \<and> present (notionId e))
          (entries ent m))"

text \<open>
  One round of the loop of \<^verbatim>\<open>handleDeletions\<close> under \<^verbatim>\<open>--apply-deletes\<close>: the archive
  request, and only when it resolved the two \<^verbatim>\<open>delete\<close>s. A rejected request is caught
  and logged.
\<close>

definition archive_item ::
  "flags \<Rightarrow> (nat \<Rightarrow> exchange) \<Rightarrow> entity \<Rightarrow> string \<times> string \<Rightarrow> syncmap \<times> net \<Rightarrow> syncmap \<times> net" where
  "archive_item fl remote ent d s =
     (if DRY_RUN fl then s
      else
        (case notionRequest remote (''PATCH'', ''/pages/'' @ snd d, Archived) (snd s) of
           (Inl err, n') \<Rightarrow> (fst s, n')
         | (Inr result, n') \<Rightarrow>
             ((set_entries ent (AList.delete (fst d) (entries ent (fst s))) (fst s))
                \<lparr>notionToLocal := AList.delete (snd d) (notionToLocal (fst s))\<rparr>,
              pause n')))"

definition handleDeletions ::
  "flags \<Rightarrow> (nat \<Rightarrow> exchange) \<Rightarrow> (string \<times> string) list \<Rightarrow> entity \<Rightarrow> syncmap \<times> net \<Rightarrow> syncmap \<times> net" where
  "handleDeletions fl remote deletions ent s =
     (if deletions = [] then s
      else if APPLY_DELETES fl then foldl (\<lambda>s' d. archive_item fl remote ent d s') s deletions
      else s)"

text \<open>
  \<^verbatim>\<open>pushJobs\<close>, \<^verbatim>\<open>pushContacts\<close>, \<^verbatim>\<open>pushTasks\<close>: nothing without a database id; else the
  loop over the local records, then deletion detection against the keys seen.
\<close>

definition push_entity ::
  "flags \<Rightarrow> (string \<Rightarrow> string) \<Rightarrow> (nat \<Rightarrow> exchange) \<Rightarrow> config \<Rightarrow> entity
   \<Rightarrow> (obj \<times> string) list \<Rightarrow> syncmap \<times> net \<Rightarrow> syncmap \<times> net" where
  "push_entity fl sha256 remote cfg ent items s =
     (if \<not> present (database ent cfg) then s
      else
        let st = push_items fl sha256 remote ent (the (database ent cfg)) items
                   \<lparr>smap = fst s, pnet = snd s, created = 0, updated = 0, unchanged = 0,
                    errors = 0, localKeys = []\<rparr>;
            deletions = detectLocalDeletions (smap st) ent (localKeys st)
        in if deletions \<noteq> [] then handleDeletions fl remote deletions ent (smap st, pnet st)
           else (smap st, pnet st))"

definition job_items :: "tracker \<Rightarrow> (obj \<times> string) list" where
  "job_items t =
     map (\<lambda>j. (j, ''Active'')) (active t) @ map (\<lambda>j. (j, ''Skipped'')) (skipped t)
     @ map (\<lambda>j. (j, ''Closed'')) (closed t)"

definition pushJobs ::
  "flags \<Rightarrow> (string \<Rightarrow> string) \<Rightarrow> (nat \<Rightarrow> exchange) \<Rightarrow> config \<Rightarrow> tracker
   \<Rightarrow> syncmap \<times> net \<Rightarrow> syncmap \<times> net" where
  "pushJobs fl sha256 remote cfg t s = push_entity fl sha256 remote cfg Jobs (job_items t) s"

definition pushContacts ::
  "flags \<Rightarrow> (string \<Rightarrow> string) \<Rightarrow> (nat \<Rightarrow> exchange) \<Rightarrow> config \<Rightarrow> obj list
   \<Rightarrow> syncmap \<times> net \<Rightarrow> syncmap \<times> net" where
  "pushContacts fl sha256 remote cfg cs s =
     push_entity fl sha256 remote cfg Contacts (map (\<lambda>c. (c, [])) cs) s"

definition pushTasks ::
  "flags \<Rightarrow> (string \<Rightarrow> string) \<Rightarrow> (nat \<Rightarrow> exchange) \<Rightarrow> config \<Rightarrow> obj list
   \<Rightarrow> syncmap \<times> net \<Rightarrow> syncmap \<times> net" where
  "pushTasks fl sha256 remote cfg ts s =
     push_entity fl sha256 remote cfg Tasks (map (\<lambda>t. (t, [])) ts) s"


section \<open>Remote pages\<close>

text \<open>
  A page of a remote database, as a query returns it. The remote service types its
  property values by a \<^verbatim>\<open>type\<close> tag; the model keeps of each what the converters read:
  the \<^verbatim>\<open>plain_text\<close> pieces of a title or rich text, the name of a select (or \<^verbatim>\<open>null\<close>),
  the start of a date (or \<^verbatim>\<open>null\<close>), a checkbox, a url, an email.
\<close>

datatype notion_prop =
    Title "string list"
  | RichText "string list"
  | Select "string option"
  | DateProp "string option"
  | Checkbox bool
  | Url "string option"
  | Email "string option"

record page =
  page_id :: string
  last_edited_time :: string
  properties :: "(string \<times> notion_prop) list"

fun getNotionText :: "notion_prop option \<Rightarrow> string" where
  "getNotionText (Some (Title ts)) = concat ts"
| "getNotionText (Some (RichText ts)) = concat ts"
| "getNotionText _ = []"

fun getNotionSelect :: "notion_prop option \<Rightarrow> string option" where
  "getNotionSelect (Some (Select s)) = s"
| "getNotionSelect _ = None"

fun getNotionDate :: "notion_prop option \<Rightarrow> string option" where
  "getNotionDate (Some (DateProp d)) = (if present d then d else None)"
| "getNotionDate _ = None"

fun getNotionCheckbox :: "notion_prop option \<Rightarrow> bool" where
  "getNotionCheckbox (Some (Checkbox b)) = b"
| "getNotionCheckbox _ = False"

fun getNotionUrl :: "notion_prop option \<Rightarrow> string option" where
  "getNotionUrl (Some (Url u)) = u"
| "getNotionUrl _ = None"

fun getNotionEmail :: "notion_prop option \<Rightarrow> string option" where
  "getNotionEmail (Some (Email e)) = e"
| "getNotionEmail _ = None"

definition nullable :: "string option \<Rightarrow> json" where
  "nullable v = (case v of None \<Rightarrow> JNull | Some s \<Rightarrow> JStr s)"

text \<open>\<^verbatim>\<open>x || null\<close> for a string or \<^verbatim>\<open>null\<close>, and for any value.\<close>

definition str_or_null :: "string option \<Rightarrow> json" where
  "str_or_null v = (if present v then JStr (the v) else JNull)"

definition or_null :: "json option \<Rightarrow> json" where
  "or_null v = (if truthy v then the v else JNull)"

text \<open>\<^verbatim>\<open>if (s) job.k = s\<close>.\<close>

definition set_if :: "string \<Rightarrow> string \<Rightarrow> obj \<Rightarrow> obj" where
  "set_if k s ob = (if s \<noteq> [] then jset ob k (JStr s) else ob)"

definition the_str :: "string option \<Rightarrow> string" where
  "the_str v = (case v of None \<Rightarrow> [] | Some s \<Rightarrow> s)"

definition notionPropertiesToJob :: "(string \<times> notion_prop) list \<Rightarrow> obj \<times> string" where
  "notionPropertiesToJob p =
     (let job0 = [(''company'', JStr (getNotionText (map_of p ''Company''))),
                  (''role'', JStr (getNotionText (map_of p ''Role''))),
                  (''url'', nullable (getNotionUrl (map_of p ''URL''))),
                  (''added'', nullable (getNotionDate (map_of p ''Added''))),
                  (''updated'', nullable (getNotionDate (map_of p ''Updated'')))];
          job = set_if ''folder'' (getNotionText (map_of p ''Folder''))
                 (set_if ''closed'' (the_str (getNotionDate (map_of p ''Closed'')))
                   (set_if ''reason'' (getNotionText (map_of p ''Skip Reason''))
                     (set_if ''outcome'' (the_str (getNotionSelect (map_of p ''Outcome'')))
                       (set_if ''next'' (getNotionText (map_of p ''Next Action''))
                         (set_if ''stage'' (the_str (getNotionSelect (map_of p ''Stage''))) job0)))));
          status = (if present (getNotionSelect (map_of p ''Status''))
                    then the (getNotionSelect (map_of p ''Status'')) else ''Active'')
      in (job, status))"

text \<open>
  The clock and the file system are the environment of a run: the date and the
  base-36 time stamp read while a page is handled (the page is named by its entity and
  its position in the fetched list), the time the run ends, which paths exist, which
  file-system calls fail (by their position among the calls of the run), and Node's
  \<^verbatim>\<open>path\<close> functions. The digest function is part of it.
\<close>

record env =
  sha256 :: "string \<Rightarrow> string"
  today :: "entity \<Rightarrow> nat \<Rightarrow> string"
  stamp36 :: "entity \<Rightarrow> nat \<Rightarrow> string"
  now_iso :: string
  fs_exists :: "string \<Rightarrow> bool"
  fs_fails :: "nat \<Rightarrow> bool"
  path_basename :: "string \<Rightarrow> string"
  path_dirname :: "string \<Rightarrow> string"
  path_join :: "string list \<Rightarrow> string"

text \<open>
  \<^verbatim>\<open>name.toLowerCase().replace(/\s+/g, '-').replace(/[^a-z0-9-]/g, '')\<close>, on character
  codes below 128.
\<close>

definition to_lower :: "char \<Rightarrow> char" where
  "to_lower c = (let n = (of_char c :: int) in if 0x41 \<le> n \<and> n \<le> 0x5A then char_of (n + 32) else c)"

fun dash_spaces :: "bool \<Rightarrow> string \<Rightarrow> string" where
  "dash_spaces in_run [] = []"
| "dash_spaces in_run (c # cs) =
     (if is_space c then (if in_run then dash_spaces True cs else CHR ''-'' # dash_spaces True cs)
      else c # dash_spaces False cs)"

definition is_slug_char :: "char \<Rightarrow> bool" where
  "is_slug_char c = (let n = (of_char c :: int) in
     (0x61 \<le> n \<and> n \<le> 0x7A) \<or> (0x30 \<le> n \<and> n \<le> 0x39) \<or> n = 0x2D)"

definition slug :: "string \<Rightarrow> string" where
  "slug name = filter is_slug_char (dash_spaces False (map to_lower name))"

text \<open>
  \<^verbatim>\<open>notionPropertiesToContact(properties, existingContact)\<close>; \<open>existing\<close> is \<open>None\<close> for
  \<^verbatim>\<open>null\<close>. The merge of the notes is handed what \<^verbatim>\<open>interactions\<close> holds: on a value that
  is no array \<^verbatim>\<open>existing.map\<close> raises once a line has parsed.
\<close>

definition merge_into :: "json \<Rightarrow> string \<Rightarrow> error + json" where
  "merge_into interactions notesText =
     (case interactions of
        JArr xs \<Rightarrow> (case mergeInteractions xs notesText of Inl e \<Rightarrow> Inl e | Inr ys \<Rightarrow> Inr (JArr ys))
      | other \<Rightarrow> if parseInteractionsFromNotes notesText = [] then Inr other else Inl TypeError)"

definition existing_field :: "obj option \<Rightarrow> string \<Rightarrow> json option" where
  "existing_field existing k = (case existing of None \<Rightarrow> None | Some ob \<Rightarrow> jget ob k)"

definition notionPropertiesToContact ::
  "string \<Rightarrow> (string \<times> notion_prop) list \<Rightarrow> obj option \<Rightarrow> error + obj" where
  "notionPropertiesToContact date_today p existing =
     (let name = getNotionText (map_of p ''Name'');
          contact0 =
            [(''id'', or_null (existing_field existing ''id'')),
             (''name'', JStr name),
             (''company'', str_or_null (Some (getNotionText (map_of p ''Company'')))),
             (''title'', str_or_null (Some (getNotionText (map_of p ''Title'')))),
             (''email'', str_or_null (getNotionEmail (map_of p ''Email''))),
             (''linkedin'', str_or_null (getNotionUrl (map_of p ''LinkedIn''))),
             (''source'', str_or_null (Some (getNotionText (map_of p ''Source'')))),
             (''introducedBy'', or_null (existing_field existing ''introducedBy'')),
             (''added'',
                the (js_or (Some (str_or_null (getNotionDate (map_of p ''Added''))))
                       (js_or (existing_field existing ''added'') (Some (JStr date_today))))),
             (''interactions'',
                the (js_or (existing_field existing ''interactions'') (Some (JArr []))))];
          contact1 = (if truthy (jget contact0 ''id'') then contact0
                      else jset contact0 ''id'' (JStr (slug name)));
          notesText = getNotionText (map_of p ''Notes'')
      in if notesText = [] then Inr contact1
         else (case merge_into (the (jget contact1 ''interactions'')) notesText of
                 Inl e \<Rightarrow> Inl e
               | Inr merged \<Rightarrow> Inr (jset contact1 ''interactions'' merged)))"

definition notionPropertiesToTask ::
  "string \<Rightarrow> string \<Rightarrow> (string \<times> notion_prop) list \<Rightarrow> obj option \<Rightarrow> obj" where
  "notionPropertiesToTask date_today time_stamp p existing =
     (let done = getNotionCheckbox (map_of p ''Done'');
          task0 =
            [(''id'', or_null (existing_field existing ''id'')),
             (''task'', JStr (getNotionText (map_of p ''Task''))),
             (''due'', str_or_null (getNotionDate (map_of p ''Due''))),
             (''linkedContacts'',
                the (js_or (existing_field existing ''linkedContacts'') (Some (JArr [])))),
             (''linkedJobs'', the (js_or (existing_field existing ''linkedJobs'') (Some (JArr [])))),
             (''status'', JStr (if done then ''completed'' else ''pending'')),
             (''created'',
                the (js_or (Some (str_or_null (getNotionDate (map_of p ''Created''))))
                       (js_or (existing_field existing ''created'') (Some (JStr date_today)))))];
          task1 = (if done
                   then jset task0 ''completed''
                          (the (js_or (existing_field existing ''completed'') (Some (JStr date_today))))
                   else task0)
      in if truthy (jget task1 ''id'') then task1
         else jset task1 ''id'' (JStr (''task-'' @ time_stamp)))"

section \<open>Job keys and buckets\<close>

datatype bucket = Active | Skipped | Closed

fun bucket_of :: "bucket \<Rightarrow> tracker \<Rightarrow> obj list" where
  "bucket_of Active t = active t"
| "bucket_of Skipped t = skipped t"
| "bucket_of Closed t = closed t"

fun set_bucket :: "bucket \<Rightarrow> obj list \<Rightarrow> tracker \<Rightarrow> tracker" where
  "set_bucket Active js t = t\<lparr>active := js\<rparr>"
| "set_bucket Skipped js t = t\<lparr>skipped := js\<rparr>"
| "set_bucket Closed js t = t\<lparr>closed := js\<rparr>"

text \<open>
  \<^verbatim>\<open>const arrayMap = { 'Active': 'active', 'Skipped': 'skipped', 'Closed': 'closed' }\<close>.
  An object literal also answers for the names it inherits from \<^verbatim>\<open>Object.prototype\<close>,
  with a function or an object: a truthy value that names no bucket.
\<close>

definition arrayMap :: "string \<Rightarrow> bucket option" where
  "arrayMap status =
     (if status = ''Active'' then Some Active
      else if status = ''Skipped'' then Some Skipped
      else if status = ''Closed'' then Some Closed
      else None)"

definition inherited_names :: "string list" where
  "inherited_names =
     [''constructor'', ''hasOwnProperty'', ''isPrototypeOf'', ''propertyIsEnumerable'',
      ''toLocaleString'', ''toString'', ''valueOf'', ''__proto__'', ''__defineGetter__'',
      ''__defineSetter__'', ''__lookupGetter__'', ''__lookupSetter__'']"

text \<open>
  \<^verbatim>\<open>tracker[arrayMap[notionStatus] || 'active'].push(job)\<close>: on an inherited name the
  bucket read is \<^verbatim>\<open>undefined\<close> and \<^verbatim>\<open>push\<close> raises.
\<close>

definition push_to_target :: "string \<Rightarrow> obj \<Rightarrow> tracker \<Rightarrow> error + tracker" where
  "push_to_target status job t =
     (if status \<in> set inherited_names then Inl TypeError
      else let b = (case arrayMap status of Some b \<Rightarrow> b | None \<Rightarrow> Active)
           in Inr (set_bucket b (bucket_of b t @ [job]) t))"

text \<open>
  \<^verbatim>\<open>findJobInTracker\<close>: the key is split at every colon and the first three pieces are
  read as status, company and role (a missing piece is \<^verbatim>\<open>undefined\<close>).
\<close>

definition piece :: "string list \<Rightarrow> nat \<Rightarrow> json option" where
  "piece ps n = (if n < length ps then Some (JStr (ps ! n)) else None)"

fun find_index :: "('a \<Rightarrow> bool) \<Rightarrow> 'a list \<Rightarrow> nat option" where
  "find_index P [] = None"
| "find_index P (x # xs) = (if P x then Some 0 else map_option Suc (find_index P xs))"

definition findJobInTracker :: "tracker \<Rightarrow> string \<Rightarrow> (bucket \<times> nat \<times> obj) option" where
  "findJobInTracker t localKey =
     (let ps = split_on (CHR '':'') localKey in
      case arrayMap (case ps of [] \<Rightarrow> [] | status # _ \<Rightarrow> status) of
        None \<Rightarrow> None
      | Some b \<Rightarrow>
          (case find_index (\<lambda>j. jget j ''company'' = piece ps 1 \<and> jget j ''role'' = piece ps 2)
                  (bucket_of b t) of
             None \<Rightarrow> None
           | Some i \<Rightarrow> Some (b, i, bucket_of b t ! i)))"

definition stageToDirectory :: "json option \<Rightarrow> string \<Rightarrow> string" where
  "stageToDirectory stage status =
     (if status = ''Closed'' \<or> status = ''Rejected'' \<or> status = ''Withdrew'' \<or> status = ''Expired''
      then ''Rejected''
      else if \<not> truthy stage \<or> stage = Some (JStr ''Sourced'') then ''InProgress''
      else ''Applied'')"

section \<open>Pull: remote to local\<close>

text \<open>
  The state a pull pass works on: the sync map, the local collection, the two counters
  and the file-system calls made. A raised error ends the run (\<^verbatim>\<open>main().catch\<close>), so a
  pass returns an error or a state.
\<close>

datatype fs_op = Mkdir string | Rename string string

record 'd pull_state =
  pmap :: syncmap
  local_data :: 'd
  pulled :: nat
  skippedCount :: nat
  fs_log :: "fs_op list"

definition skip :: "'d pull_state \<Rightarrow> 'd pull_state" where
  "skip st = st\<lparr>skippedCount := skippedCount st + 1\<rparr>"

text \<open>\<^verbatim>\<open>syncEntry.notionLastEdited = pageEdited\<close> on the entry under a key.\<close>

definition set_edited :: "entity \<Rightarrow> string \<Rightarrow> string \<Rightarrow> syncmap \<Rightarrow> syncmap" where
  "set_edited ent k pageEdited m =
     set_entries ent
       (AList.map_entry k (\<lambda>e. e\<lparr>notionLastEdited := Some pageEdited\<rparr>) (entries ent m)) m"

definition set_pulled :: "entity \<Rightarrow> string \<Rightarrow> string \<Rightarrow> string \<Rightarrow> syncmap \<Rightarrow> syncmap" where
  "set_pulled ent k h pageEdited m =
     set_entries ent
       (AList.map_entry k (\<lambda>e. e\<lparr>localHash := Some h, notionLastEdited := Some pageEdited\<rparr>)
          (entries ent m)) m"

text \<open>
  The reverse lookup at the head of each loop body:
  \<^verbatim>\<open>existingKey = reverseEntry?.type === 'jobs' ? reverseEntry.key : null\<close> and
  \<^verbatim>\<open>syncEntry = existingKey ? syncMap.jobs[existingKey] : null\<close>.
\<close>

definition existing_key :: "entity \<Rightarrow> syncmap \<Rightarrow> string \<Rightarrow> string option" where
  "existing_key ent m pageId =
     (case map_of (notionToLocal m) pageId of
        None \<Rightarrow> None
      | Some r \<Rightarrow> if etype r = entity_name ent then Some (ekey r) else None)"

definition sync_entry_of :: "entity \<Rightarrow> syncmap \<Rightarrow> string option \<Rightarrow> sync_entry option" where
  "sync_entry_of ent m existingKey =
     (if present existingKey then map_of (entries ent m) (the existingKey) else None)"

text \<open>
  \<^verbatim>\<open>!syncEntry.notionLastEdited || pageEdited > syncEntry.notionLastEdited\<close>, on strings.
\<close>

definition notionChanged :: "sync_entry \<Rightarrow> string \<Rightarrow> bool" where
  "notionChanged e pageEdited =
     (\<not> present (notionLastEdited e) \<or> the (notionLastEdited e) < pageEdited)"

text \<open>
  The conflict test: only with a stored hash and a local record found is the fresh
  hash computed and compared.
\<close>

definition conflict :: "(string \<Rightarrow> string) \<Rightarrow> sync_entry \<Rightarrow> obj option \<Rightarrow> bool" where
  "conflict sha e found =
     (present (localHash e) \<and>
      (case found of None \<Rightarrow> False | Some item \<Rightarrow> hashItem sha item \<noteq> the (localHash e)))"

definition new_entry :: "string \<Rightarrow> string \<Rightarrow> string \<Rightarrow> sync_entry" where
  "new_entry pageId h pageEdited =
     \<lparr>notionId = Some pageId, localHash = Some h, notionLastEdited = Some pageEdited,
      entryCompany = None, entryRole = None\<rparr>"

definition new_job_entry :: "string \<Rightarrow> string \<Rightarrow> string \<Rightarrow> obj \<Rightarrow> sync_entry" where
  "new_job_entry pageId h pageEdited job =
     (new_entry pageId h pageEdited)
       \<lparr>entryCompany := jget job ''company'', entryRole := jget job ''role''\<rparr>"

subsection \<open>Jobs\<close>

text \<open>
  The folder move of a reclassification. It returns the job as it will be stored (its
  \<^verbatim>\<open>folder\<close> rewritten when there is one on either side) and the file-system calls
  made. \<^verbatim>\<open>path.basename\<close> raises on a folder that is no string.
\<close>

definition move_folder ::
  "env \<Rightarrow> json option \<Rightarrow> obj \<Rightarrow> string \<Rightarrow> fs_op list \<Rightarrow> error + obj \<times> fs_op list" where
  "move_folder ev oldDir notionJob notionStatus fslog =
     (let newDirName = stageToDirectory (jget notionJob ''stage'') notionStatus in
      if \<not> (truthy (jget notionJob ''folder'') \<or> truthy oldDir) then Inr (notionJob, fslog)
      else
        (case js_or oldDir (jget notionJob ''folder'') of
           Some (JStr src) \<Rightarrow>
             let baseName = path_basename ev src;
                 newFolder = path_join ev [''data'', newDirName, baseName];
                 job' = jset notionJob ''folder'' (JStr newFolder)
             in
             if truthy oldDir \<and> fs_exists ev src then
               (if fs_fails ev (length fslog) then Inl FsError
                else
                  let log1 = fslog @ [Mkdir (path_dirname ev newFolder)] in
                  if src \<noteq> newFolder then
                    (if fs_fails ev (length log1) then Inl FsError
                     else Inr (job', log1 @ [Rename src newFolder]))
                  else Inr (job', log1))
             else Inr (job', fslog)
         | _ \<Rightarrow> Inl TypeError))"

definition reclassify ::
  "env \<Rightarrow> page \<Rightarrow> string \<Rightarrow> obj \<Rightarrow> string \<Rightarrow> tracker pull_state \<Rightarrow> error + tracker pull_state" where
  "reclassify ev pg existingKey notionJob notionStatus st =
     (let notionLocalKey = getJobLocalId notionJob notionStatus;
          found = findJobInTracker (local_data st) existingKey;
          t1 = (case found of
                  None \<Rightarrow> local_data st
                | Some (b, i, j) \<Rightarrow>
                    set_bucket b (take i (bucket_of b (local_data st))
                                  @ drop (Suc i) (bucket_of b (local_data st))) (local_data st));
          oldDir = (case found of None \<Rightarrow> None | Some (b, i, j) \<Rightarrow> jget j ''folder'')
      in
      case move_folder ev oldDir notionJob notionStatus (fs_log st) of
        Inl e \<Rightarrow> Inl e
      | Inr (job', log') \<Rightarrow>
          (case push_to_target notionStatus job' t1 of
             Inl e \<Rightarrow> Inl e
           | Inr t2 \<Rightarrow>
               let m = pmap st;
                   m1 = m\<lparr>jobs :=
                          AList.update notionLocalKey
                            (new_job_entry (page_id pg) (hashItem (sha256 ev) job')
                               (last_edited_time pg) job')
                            (AList.delete existingKey (jobs m)),
                        notionToLocal :=
                          AList.update (page_id pg)
                            \<lparr>etype = ''jobs'', ekey = notionLocalKey\<rparr> (notionToLocal m)\<rparr>
               in Inr (st\<lparr>pmap := m1, local_data := t2, pulled := pulled st + 1, fs_log := log'\<rparr>)))"

definition update_in_place ::
  "env \<Rightarrow> page \<Rightarrow> string \<Rightarrow> obj \<Rightarrow> tracker pull_state \<Rightarrow> tracker pull_state" where
  "update_in_place ev pg existingKey notionJob st =
     (let t1 = (case findJobInTracker (local_data st) existingKey of
                  None \<Rightarrow> local_data st
                | Some (b, i, j) \<Rightarrow>
                    set_bucket b ((bucket_of b (local_data st))[i := notionJob]) (local_data st))
      in st\<lparr>pmap := set_pulled Jobs existingKey (hashItem (sha256 ev) notionJob)
                        (last_edited_time pg) (pmap st),
            local_data := t1, pulled := pulled st + 1\<rparr>)"

definition materialize_job ::
  "env \<Rightarrow> page \<Rightarrow> obj \<Rightarrow> string \<Rightarrow> tracker pull_state \<Rightarrow> error + tracker pull_state" where
  "materialize_job ev pg notionJob notionStatus st =
     (let d = today ev Jobs (pulled st + skippedCount st);
          job1 = (if truthy (jget notionJob ''added'') then notionJob
                  else jset notionJob ''added'' (JStr d));
          job2 = (if notionStatus = ''Active'' \<and> \<not> truthy (jget job1 ''updated'')
                  then jset job1 ''updated'' (JStr d) else job1)
      in
      case push_to_target notionStatus job2 (local_data st) of
        Inl e \<Rightarrow> Inl e
      | Inr t1 \<Rightarrow>
          let notionLocalKey = getJobLocalId notionJob notionStatus;
              m = pmap st;
              m1 = m\<lparr>jobs :=
                     AList.update notionLocalKey
                       (new_job_entry (page_id pg) (hashItem (sha256 ev) job2)
                          (last_edited_time pg) job2)
                       (jobs m),
                   notionToLocal :=
                     AList.update (page_id pg)
                       \<lparr>etype = ''jobs'', ekey = notionLocalKey\<rparr> (notionToLocal m)\<rparr>
          in Inr (st\<lparr>pmap := m1, local_data := t1, pulled := pulled st + 1\<rparr>))"

text \<open>The body of the loop of \<^verbatim>\<open>pullJobs\<close>, for one fetched page.\<close>

definition pull_job ::
  "flags \<Rightarrow> env \<Rightarrow> bool \<Rightarrow> page \<Rightarrow> tracker pull_state \<Rightarrow> error + tracker pull_state" where
  "pull_job fl ev isBaseline pg st =
     (let pageEdited = last_edited_time pg;
          notionJob = fst (notionPropertiesToJob (properties pg));
          notionStatus = snd (notionPropertiesToJob (properties pg));
          notionLocalKey = getJobLocalId notionJob notionStatus;
          existingKey = existing_key Jobs (pmap st) (page_id pg)
      in
      case sync_entry_of Jobs (pmap st) existingKey of
        Some syncEntry \<Rightarrow>
          if isBaseline then
            Inr (skip (st\<lparr>pmap := set_edited Jobs (the existingKey) pageEdited (pmap st)\<rparr>))
          else if \<not> notionChanged syncEntry pageEdited \<and> \<not> FULL_SYNC fl then Inr (skip st)
          else if conflict (sha256 ev) syncEntry
                    (map_option (\<lambda>(b, i, j). j) (findJobInTracker (local_data st) (the existingKey)))
          then Inr (skip (st\<lparr>pmap := set_edited Jobs (the existingKey) pageEdited (pmap st)\<rparr>))
          else if DRY_RUN fl then Inr (skip st)
          else if the existingKey \<noteq> notionLocalKey
          then reclassify ev pg (the existingKey) notionJob notionStatus st
          else Inr (update_in_place ev pg (the existingKey) notionJob st)
      | None \<Rightarrow>
          if isBaseline then Inr (skip st)
          else if DRY_RUN fl then Inr (skip st)
          else materialize_job ev pg notionJob notionStatus st)"

subsection \<open>Contacts and tasks\<close>

text \<open>
  \<^verbatim>\<open>pullContacts\<close> and \<^verbatim>\<open>pullTasks\<close> have the same loop body up to the converter and the
  way a local record is matched with a key: \<^verbatim>\<open>(c.id || c.name) === existingKey\<close> for a
  contact, \<^verbatim>\<open>t.id === existingKey\<close> for a task.
\<close>

fun matches_key :: "entity \<Rightarrow> string \<Rightarrow> obj \<Rightarrow> bool" where
  "matches_key Tasks k item = (jget item ''id'' = Some (JStr k))"
| "matches_key ent k item = (js_or (jget item ''id'') (jget item ''name'') = Some (JStr k))"

fun convert :: "env \<Rightarrow> entity \<Rightarrow> nat \<Rightarrow> page \<Rightarrow> obj option \<Rightarrow> error + obj" where
  "convert ev Tasks n pg existing =
     Inr (notionPropertiesToTask (today ev Tasks n) (stamp36 ev Tasks n) (properties pg) existing)"
| "convert ev ent n pg existing =
     notionPropertiesToContact (today ev ent n) (properties pg) existing"

fun new_local_id :: "entity \<Rightarrow> obj \<Rightarrow> string" where
  "new_local_id Tasks item = js_string (jget item ''id'')"
| "new_local_id ent item = js_string (js_or (jget item ''id'') (jget item ''name''))"

definition pull_item ::
  "flags \<Rightarrow> env \<Rightarrow> entity \<Rightarrow> bool \<Rightarrow> page \<Rightarrow> obj list pull_state \<Rightarrow> error + obj list pull_state" where
  "pull_item fl ev ent isBaseline pg st =
     (let pageEdited = last_edited_time pg;
          existingKey = existing_key ent (pmap st) (page_id pg);
          existing = (if present existingKey
                      then find (matches_key ent (the existingKey)) (local_data st) else None);
          n = pulled st + skippedCount st
      in
      case sync_entry_of ent (pmap st) existingKey of
        Some syncEntry \<Rightarrow>
          if isBaseline then
            Inr (skip (st\<lparr>pmap := set_edited ent (the existingKey) pageEdited (pmap st)\<rparr>))
          else if \<not> notionChanged syncEntry pageEdited \<and> \<not> FULL_SYNC fl then Inr (skip st)
          else if conflict (sha256 ev) syncEntry existing
          then Inr (skip (st\<lparr>pmap := set_edited ent (the existingKey) pageEdited (pmap st)\<rparr>))
          else if DRY_RUN fl then Inr (skip st)
          else
            (case convert ev ent n pg existing of
               Inl e \<Rightarrow> Inl e
             | Inr item \<Rightarrow>
                 Inr (st\<lparr>pmap := set_pulled ent (the existingKey) (hashItem (sha256 ev) item)
                                   pageEdited (pmap st),
                         local_data :=
                           (case find_index (matches_key ent (the existingKey)) (local_data st) of
                              None \<Rightarrow> local_data st
                            | Some i \<Rightarrow> (local_data st)[i := item]),
                         pulled := pulled st + 1\<rparr>))
      | None \<Rightarrow>
          if isBaseline then Inr (skip st)
          else if DRY_RUN fl then Inr (skip st)
          else
            (case convert ev ent n pg None of
               Inl e \<Rightarrow> Inl e
             | Inr item \<Rightarrow>
                 let localId = new_local_id ent item; m = pmap st in
                 Inr (st\<lparr>pmap :=
                           (set_entries ent
                              (AList.update localId
                                 (new_entry (page_id pg) (hashItem (sha256 ev) item) pageEdited)
                                 (entries ent m)) m)
                           \<lparr>notionToLocal :=
                              AList.update (page_id pg)
                                \<lparr>etype = entity_name ent, ekey = localId\<rparr> (notionToLocal m)\<rparr>,
                         local_data := local_data st @ [item],
                         pulled := pulled st + 1\<rparr>)))"

subsection \<open>The passes\<close>

fun pull_jobs_loop ::
  "flags \<Rightarrow> env \<Rightarrow> bool \<Rightarrow> page list \<Rightarrow> tracker pull_state \<Rightarrow> error + tracker pull_state" where
  "pull_jobs_loop fl ev isBaseline [] st = Inr st"
| "pull_jobs_loop fl ev isBaseline (pg # pages) st =
     (case pull_job fl ev isBaseline pg st of
        Inl e \<Rightarrow> Inl e
      | Inr st' \<Rightarrow> pull_jobs_loop fl ev isBaseline pages st')"

fun pull_items_loop ::
  "flags \<Rightarrow> env \<Rightarrow> entity \<Rightarrow> bool \<Rightarrow> page list \<Rightarrow> obj list pull_state
   \<Rightarrow> error + obj list pull_state" where
  "pull_items_loop fl ev ent isBaseline [] st = Inr st"
| "pull_items_loop fl ev ent isBaseline (pg # pages) st =
     (case pull_item fl ev ent isBaseline pg st of
        Inl e \<Rightarrow> Inl e
      | Inr st' \<Rightarrow> pull_items_loop fl ev ent isBaseline pages st')"

text \<open>
  \<^verbatim>\<open>fetchChangedPages\<close>: the query is repeated from cursor to cursor while the remote
  says there is more, so the loop ends only if the remote lets it; \<open>None\<close> is a fetch
  that never returns. A rejected request ends it with the error, as does a result
  whose \<^verbatim>\<open>results\<close> is no array. \<open>read_page\<close> is the typed view of a page
  object.
\<close>

definition results_of :: "json \<Rightarrow> error + json list" where
  "results_of result = (case jprop result ''results'' of Some (JArr xs) \<Rightarrow> Inr xs | _ \<Rightarrow> Inl TypeError)"

definition next_cursor :: "json \<Rightarrow> json option" where
  "next_cursor result = (if truthy (jprop result ''has_more'') then jprop result ''next_cursor'' else None)"

partial_function (option) fetch_loop ::
  "(nat \<Rightarrow> exchange) \<Rightarrow> (json \<Rightarrow> page) \<Rightarrow> string \<Rightarrow> string option \<Rightarrow> json option
   \<Rightarrow> page list \<Rightarrow> net \<Rightarrow> ((error + page list) \<times> net) option" where
  "fetch_loop remote read_page dbId since startCursor pages st =
     (case notionRequest remote
             (''POST'', ''/databases/'' @ dbId @ ''/query'',
              Query (if present since then since else None)
                    (if truthy startCursor then startCursor else None)) st of
        (Inl e, st') \<Rightarrow> Some (Inl e, st')
      | (Inr result, st') \<Rightarrow>
          (case results_of result of
             Inl e \<Rightarrow> Some (Inl e, st')
           | Inr found \<Rightarrow>
               if truthy (next_cursor result)
               then fetch_loop remote read_page dbId since (next_cursor result)
                      (pages @ map read_page found) (pause st')
               else Some (Inr (pages @ map read_page found),
                          if truthy (jprop result ''has_more'') then pause st' else st')))"

definition fetchChangedPages ::
  "(nat \<Rightarrow> exchange) \<Rightarrow> (json \<Rightarrow> page) \<Rightarrow> string \<Rightarrow> string option \<Rightarrow> net
   \<Rightarrow> ((error + page list) \<times> net) option" where
  "fetchChangedPages remote read_page dbId since st =
     fetch_loop remote read_page dbId since None [] st"

text \<open>
  In the passes the outcome of the fetch is a parameter: \<open>fetch ent since\<close> stands
  for what \<^verbatim>\<open>fetchChangedPages(dbId, apiKey, since)\<close> returns, or the error it ends the
  run with, on the database of \<open>ent\<close>, with \<open>since = None\<close> for \<^verbatim>\<open>fetchAllPages\<close>.
\<close>

type_synonym fetcher = "entity \<Rightarrow> string option \<Rightarrow> error + page list"

definition fetch_pages :: "flags \<Rightarrow> fetcher \<Rightarrow> entity \<Rightarrow> syncmap \<Rightarrow> error + page list" where
  "fetch_pages fl fetch ent m =
     (if FULL_SYNC fl \<or> \<not> present (lastSyncTime m) then fetch ent None
      else fetch ent (lastSyncTime m))"

definition start :: "syncmap \<Rightarrow> 'd \<Rightarrow> 'd pull_state" where
  "start m d = \<lparr>pmap = m, local_data = d, pulled = 0, skippedCount = 0, fs_log = []\<rparr>"

definition pullJobs ::
  "flags \<Rightarrow> env \<Rightarrow> config \<Rightarrow> fetcher \<Rightarrow> syncmap \<Rightarrow> tracker \<Rightarrow> error + tracker pull_state" where
  "pullJobs fl ev cfg fetch m t =
     (if \<not> present (jobs_db cfg) then Inr (start m t)
      else (case fetch_pages fl fetch Jobs m of
              Inl e \<Rightarrow> Inl e
            | Inr pages \<Rightarrow> pull_jobs_loop fl ev (\<not> present (lastSyncTime m)) pages (start m t)))"

definition pull_entity ::
  "flags \<Rightarrow> env \<Rightarrow> config \<Rightarrow> fetcher \<Rightarrow> entity \<Rightarrow> syncmap \<Rightarrow> obj list
   \<Rightarrow> error + obj list pull_state" where
  "pull_entity fl ev cfg fetch ent m items =
     (if \<not> present (database ent cfg) then Inr (start m items)
      else (case fetch_pages fl fetch ent m of
              Inl e \<Rightarrow> Inl e
            | Inr pages \<Rightarrow>
                pull_items_loop fl ev ent (\<not> present (lastSyncTime m)) pages (start m items)))"

definition pullContacts ::
  "flags \<Rightarrow> env \<Rightarrow> config \<Rightarrow> fetcher \<Rightarrow> syncmap \<Rightarrow> obj list \<Rightarrow> error + obj list pull_state" where
  "pullContacts fl ev cfg fetch m cs = pull_entity fl ev cfg fetch Contacts m cs"

definition pullTasks ::
  "flags \<Rightarrow> env \<Rightarrow> config \<Rightarrow> fetcher \<Rightarrow> syncmap \<Rightarrow> obj list \<Rightarrow> error + obj list pull_state" where
  "pullTasks fl ev cfg fetch m ts = pull_entity fl ev cfg fetch Tasks m ts"

section \<open>The run\<close>

text \<open>
  The four documents on disk and what a run holds in memory. A run starts from the
  documents as loaded (the sync map already in its enriched format) with the schemas
  in place; loading and the schema check are not modelled.
\<close>

record disk =
  tracker_json :: tracker
  network_json :: "obj list"
  tasks_json :: "obj list"
  sync_map_json :: syncmap

record memory =
  syncMap :: syncmap
  trackerData :: tracker
  networkData :: "obj list"
  tasksData :: "obj list"
  traffic :: net
  fs_calls :: "fs_op list"

text \<open>
  The pull phase of \<^verbatim>\<open>main\<close>: the three passes in turn on the one sync map, and the
  number of records pulled.
\<close>

definition pull_phase ::
  "flags \<Rightarrow> env \<Rightarrow> config \<Rightarrow> fetcher \<Rightarrow> memory \<Rightarrow> error + memory \<times> nat" where
  "pull_phase fl ev cfg fetch mem =
     (case pullJobs fl ev cfg fetch (syncMap mem) (trackerData mem) of
        Inl e \<Rightarrow> Inl e
      | Inr js \<Rightarrow>
          (case pullContacts fl ev cfg fetch (pmap js) (networkData mem) of
             Inl e \<Rightarrow> Inl e
           | Inr cs \<Rightarrow>
               (case pullTasks fl ev cfg fetch (pmap cs) (tasksData mem) of
                  Inl e \<Rightarrow> Inl e
                | Inr ts \<Rightarrow>
                    Inr (mem\<lparr>syncMap := pmap ts, trackerData := local_data js,
                              networkData := local_data cs, tasksData := local_data ts,
                              fs_calls := fs_calls mem @ fs_log js\<rparr>,
                         pulled js + pulled cs + pulled ts))))"

definition push_phase ::
  "flags \<Rightarrow> env \<Rightarrow> config \<Rightarrow> (nat \<Rightarrow> exchange) \<Rightarrow> memory \<Rightarrow> memory" where
  "push_phase fl ev cfg remote mem =
     (let s1 = pushJobs fl (sha256 ev) remote cfg (trackerData mem) (syncMap mem, traffic mem);
          s2 = pushContacts fl (sha256 ev) remote cfg (networkData mem) s1;
          s3 = pushTasks fl (sha256 ev) remote cfg (tasksData mem) s2
      in mem\<lparr>syncMap := fst s3, traffic := snd s3\<rparr>)"

definition load :: "disk \<Rightarrow> memory" where
  "load d = \<lparr>syncMap = sync_map_json d, trackerData = tracker_json d,
             networkData = network_json d, tasksData = tasks_json d,
             traffic = \<lparr>sent = [], waits = []\<rparr>, fs_calls = []\<rparr>"

text \<open>
  \<^verbatim>\<open>main\<close>: pull unless \<^verbatim>\<open>--push-only\<close>; save the local documents when something was
  pulled outside a dry run; push unless \<^verbatim>\<open>--pull-only\<close>; outside a dry run set the
  watermark and save the sync map. The result is how the run ended, with the memory it
  ended with when it completed, and the disk it leaves.
\<close>

definition main ::
  "flags \<Rightarrow> env \<Rightarrow> config \<Rightarrow> fetcher \<Rightarrow> (nat \<Rightarrow> exchange) \<Rightarrow> disk \<Rightarrow> (error + memory) \<times> disk" where
  "main fl ev cfg fetch remote d =
     (case (if PUSH_ONLY fl then Inr (load d, 0) else pull_phase fl ev cfg fetch (load d)) of
        Inl e \<Rightarrow> (Inl e, d)
      | Inr (mem1, totalPulled) \<Rightarrow>
          let localDataChanged = (\<not> PUSH_ONLY fl \<and> 0 < totalPulled \<and> \<not> DRY_RUN fl);
              d1 = (if localDataChanged
                    then d\<lparr>tracker_json := trackerData mem1, network_json := networkData mem1,
                           tasks_json := tasksData mem1\<rparr>
                    else d);
              mem2 = (if PULL_ONLY fl then mem1 else push_phase fl ev cfg remote mem1)
          in if DRY_RUN fl then (Inr mem2, d1)
             else
               let mem3 = mem2\<lparr>syncMap := (syncMap mem2)\<lparr>lastSyncTime := Some (now_iso ev)\<rparr>\<rparr>
               in (Inr mem3, d1\<lparr>sync_map_json := syncMap mem3\<rparr>))"

section \<open>Comparing sync maps\<close>

text \<open>
  Two sync maps that agree on everything but the remote edit times of their entries:
  the same watermark, the same reverse index, and under each entity the same keys in
  the same order with the same remote id, hash, company and role.
\<close>

definition erase_edited :: "(string \<times> sync_entry) list \<Rightarrow> (string \<times> sync_entry) list" where
  "erase_edited es = map (\<lambda>(k, e). (k, e\<lparr>notionLastEdited := None\<rparr>)) es"

definition same_but_edited :: "syncmap \<Rightarrow> syncmap \<Rightarrow> bool" where
  "same_but_edited m m' =
     (lastSyncTime m' = lastSyncTime m \<and> notionToLocal m' = notionToLocal m
      \<and> erase_edited (jobs m') = erase_edited (jobs m)
      \<and> erase_edited (contacts m') = erase_edited (contacts m)
      \<and> erase_edited (tasks m') = erase_edited (tasks m))"

text \<open>A pass that left the local collection alone and at most recorded remote edit times.\<close>

definition untouched :: "syncmap \<Rightarrow> 'd \<Rightarrow> 'd pull_state \<Rightarrow> bool" where
  "untouched m d st =
     (local_data st = d \<and> pulled st = 0 \<and> fs_log st = [] \<and> same_but_edited m (pmap st))"

text \<open>The same of one state against the state before it.\<close>

definition quiet :: "'d pull_state \<Rightarrow> 'd pull_state \<Rightarrow> bool" where
  "quiet st st' =
     (local_data st' = local_data st \<and> pulled st' = pulled st \<and> fs_log st' = fs_log st
      \<and> same_but_edited (pmap st) (pmap st'))"

section \<open>Concrete inputs\<close>

definition interaction_obj :: "string \<Rightarrow> string \<Rightarrow> string \<Rightarrow> json" where
  "interaction_obj d t s = JObj [(''date'', JStr d), (''type'', JStr t), (''summary'', JStr s)]"

definition contact_jane :: "string \<Rightarrow> obj" where
  "contact_jane summary =
     [(''id'', JStr ''jane-doe''), (''name'', JStr ''Jane Doe''), (''company'', JNull),
      (''interactions'', JArr [interaction_obj ''2026-01-26'' ''email'' summary])]"



text \<open>
  A stand-in for the digest in worked examples (the theorems hold for every digest
  function), a fixed clock, and a file system on which nothing exists.
\<close>

definition letter :: "int \<Rightarrow> char" where
  "letter i = char_of (97 + i)"

definition example_digest :: "string \<Rightarrow> string" where
  "example_digest s =
     (let h = foldl (\<lambda>a c. (a * 31 + of_char c) mod 1000003) (7::int) s
      in [letter (h mod 26), letter (h div 26 mod 26), letter (h div 676 mod 26),
          letter (h div 17576 mod 26)])"

definition example_env :: env where
  "example_env =
     \<lparr>sha256 = example_digest, today = (\<lambda>ent n. ''2026-02-01''), stamp36 = (\<lambda>ent n. ''mkz1a2b3''),
      now_iso = ''2026-02-01T09:00:00.000Z'', fs_exists = (\<lambda>p. False), fs_fails = (\<lambda>n. False),
      path_basename = (\<lambda>p. last (split_on (CHR ''/'') p)),
      path_dirname = (\<lambda>p. intercalate ''/'' (butlast (split_on (CHR ''/'') p))),
      path_join = intercalate ''/''\<rparr>"

definition run_flags :: "bool \<Rightarrow> flags" where
  "run_flags dry = \<lparr>DRY_RUN = dry, PULL_ONLY = False, PUSH_ONLY = False, FULL_SYNC = False,
                    APPLY_DELETES = False\<rparr>"

definition all_dbs :: config where
  "all_dbs = \<lparr>jobs_db = Some ''db-jobs'', contacts_db = Some ''db-contacts'', tasks_db = Some ''db-tasks''\<rparr>"

text \<open>One job at Acme, locally and as a remote page with a given role, status and edit time.\<close>

definition job_acme :: "string \<Rightarrow> string \<Rightarrow> obj" where
  "job_acme title_of_role stage =
     [(''company'', JStr ''Acme''), (''role'', JStr title_of_role), (''url'', JNull),
      (''added'', JStr ''2026-01-10''), (''updated'', JStr ''2026-01-12''), (''stage'', JStr stage)]"

definition page_acme :: "string \<Rightarrow> string option \<Rightarrow> string \<Rightarrow> page" where
  "page_acme title_of_role status edited =
     \<lparr>page_id = ''page-1'', last_edited_time = edited,
      properties =
        [(''Company'', RichText [''Acme'']), (''Role'', Title [title_of_role]),
         (''Status'', Select status), (''Stage'', Select (Some ''Applied'')),
         (''Added'', DateProp (Some ''2026-01-10'')), (''Updated'', DateProp (Some ''2026-01-12''))]\<rparr>"

definition entry_acme :: "string \<Rightarrow> string option \<Rightarrow> string option \<Rightarrow> sync_entry" where
  "entry_acme title_of_role h edited =
     \<lparr>notionId = Some ''page-1'', localHash = h, notionLastEdited = edited,
      entryCompany = Some (JStr ''Acme''), entryRole = Some (JStr title_of_role)\<rparr>"

definition map_acme :: "string option \<Rightarrow> string \<Rightarrow> string option \<Rightarrow> string option \<Rightarrow> syncmap" where
  "map_acme watermark title_of_role h edited =
     \<lparr>lastSyncTime = watermark,
      jobs = [(''Active:Acme:'' @ title_of_role, entry_acme title_of_role h edited)],
      contacts = [], tasks = [],
      notionToLocal = [(''page-1'', \<lparr>etype = ''jobs'', ekey = ''Active:Acme:'' @ title_of_role\<rparr>)]\<rparr>"

definition tracker_acme :: "string \<Rightarrow> string \<Rightarrow> tracker" where
  "tracker_acme title_of_role stage = \<lparr>active = [job_acme title_of_role stage], skipped = [], closed = []\<rparr>"

definition fetch_one :: "page \<Rightarrow> fetcher" where
  "fetch_one pg ent since = (if ent = Jobs then Inr [pg] else Inr [])"

text \<open>A remote that accepts every write, and one that answers every write with 429.\<close>

definition remote_ok :: "nat \<Rightarrow> exchange" where
  "remote_ok n =
     Reply \<lparr>statusCode = 200, retry_after = None, body_text = ''{...}'',
            body_json = Some (JObj [(''id'', JStr ''page-9''),
                                    (''last_edited_time'', JStr ''2026-02-01T09:00:01.000Z'')])\<rparr>"

definition busy_response :: "string option \<Rightarrow> response" where
  "busy_response hint =
     \<lparr>statusCode = 429, retry_after = hint, body_text = ''{...}'',
      body_json = Some (JObj [(''message'', JStr ''Rate limited'')])\<rparr>"

definition remote_busy :: "nat \<Rightarrow> exchange" where
  "remote_busy n = Reply (busy_response None)"

definition disk_acme :: "syncmap \<Rightarrow> string \<Rightarrow> string \<Rightarrow> disk" where
  "disk_acme m title_of_role stage =
     \<lparr>tracker_json = tracker_acme title_of_role stage, network_json = [], tasks_json = [],
      sync_map_json = m\<rparr>"



definition push_only :: flags where
  "push_only = \<lparr>DRY_RUN = False, PULL_ONLY = False, PUSH_ONLY = True, FULL_SYNC = False,
                APPLY_DELETES = False\<rparr>"

definition empty_map :: "string option \<Rightarrow> syncmap" where
  "empty_map watermark =
     \<lparr>lastSyncTime = watermark, jobs = [], contacts = [], tasks = [], notionToLocal = []\<rparr>"





definition apply_deletes :: flags where
  "apply_deletes = \<lparr>DRY_RUN = False, PULL_ONLY = False, PUSH_ONLY = True, FULL_SYNC = False,
                    APPLY_DELETES = True\<rparr>"

definition archive_acme :: request where
  "archive_acme = (''PATCH'', ''/pages/page-1'', Archived)"



section \<open>Properties\<close>

text \<open>
  C2. The claim is that a change to any field value, also of a nested sub-record such as
  the summary of a contact's interaction, changes the canonical hash. The code does not
  do that: the key list handed to \<^verbatim>\<open>JSON.stringify\<close> holds the contact's own keys only,
  so each interaction is serialized as \<^verbatim>\<open>{}\<close>. Two contacts that differ in the summary
  of an interaction have the same serialization and so the same hash, whatever the
  digest function is.
\<close>

theorem hashItem_ignores_interaction_summary:
  "contact_jane ''Sent resume'' \<noteq> contact_jane ''Sent cover letter''
   \<and> serialize (sort (object_keys (contact_jane ''Sent resume''))) (JObj (contact_jane ''Sent resume''))
       = serialize (sort (object_keys (contact_jane ''Sent cover letter''))) (JObj (contact_jane ''Sent cover letter''))
   \<and> (\<forall>sha256. hashItem sha256 (contact_jane ''Sent resume'')
                 = hashItem sha256 (contact_jane ''Sent cover letter''))"
  by (simp add: hashItem_def contact_jane_def interaction_obj_def object_keys_def
      List.map_filter_def)

subsection \<open>Passes that only record remote edit times\<close>

lemma erase_edited_map_entry:
  "erase_edited (AList.map_entry k (\<lambda>e. e\<lparr>notionLastEdited := v\<rparr>) es) = erase_edited es"
  by (induction es) (auto simp: erase_edited_def)

lemma same_but_edited_refl: "same_but_edited m m"
  by (simp add: same_but_edited_def)

lemma same_but_edited_trans:
  "same_but_edited a b \<Longrightarrow> same_but_edited b c \<Longrightarrow> same_but_edited a c"
  by (simp add: same_but_edited_def)

lemma same_but_edited_set_edited: "same_but_edited m (set_edited ent k t m)"
  by (cases ent) (simp_all add: same_but_edited_def set_edited_def erase_edited_map_entry)

lemma quiet_refl: "quiet st st"
  by (simp add: quiet_def same_but_edited_refl)

lemma quiet_trans: "quiet a b \<Longrightarrow> quiet b c \<Longrightarrow> quiet a c"
  using same_but_edited_trans by (fastforce simp: quiet_def)

lemma quiet_skip: "quiet st (skip st)"
  by (simp add: quiet_def skip_def same_but_edited_refl)

lemma quiet_skip_edited: "quiet st (skip (st\<lparr>pmap := set_edited ent k t (pmap st)\<rparr>))"
  by (simp add: quiet_def skip_def same_but_edited_set_edited)

text \<open>What a pass does to a page in baseline mode.\<close>

lemma pull_job_baseline:
  "pull_job fl ev True pg st =
     Inr (skip (case sync_entry_of Jobs (pmap st) (existing_key Jobs (pmap st) (page_id pg)) of
                  None \<Rightarrow> st
                | Some e \<Rightarrow>
                    st\<lparr>pmap := set_edited Jobs (the (existing_key Jobs (pmap st) (page_id pg)))
                                  (last_edited_time pg) (pmap st)\<rparr>))"
  by (simp add: pull_job_def Let_def split: option.splits)

lemma pull_item_baseline:
  "pull_item fl ev ent True pg st =
     Inr (skip (case sync_entry_of ent (pmap st) (existing_key ent (pmap st) (page_id pg)) of
                  None \<Rightarrow> st
                | Some e \<Rightarrow>
                    st\<lparr>pmap := set_edited ent (the (existing_key ent (pmap st) (page_id pg)))
                                  (last_edited_time pg) (pmap st)\<rparr>))"
  by (simp add: pull_item_def Let_def split: option.splits)

lemma pull_job_quiet:
  assumes "isBaseline \<or> DRY_RUN fl"
  shows "\<exists>st'. pull_job fl ev isBaseline pg st = Inr st' \<and> quiet st st'"
proof (cases isBaseline)
  case True
  then show ?thesis
    by (simp add: pull_job_baseline quiet_skip quiet_skip_edited split: option.splits)
next
  case False
  with assms have "DRY_RUN fl" by simp
  then show ?thesis using False
    by (simp add: pull_job_def Let_def quiet_skip quiet_skip_edited split: option.splits)
qed

lemma pull_item_quiet:
  assumes "isBaseline \<or> DRY_RUN fl"
  shows "\<exists>st'. pull_item fl ev ent isBaseline pg st = Inr st' \<and> quiet st st'"
proof (cases isBaseline)
  case True
  then show ?thesis
    by (simp add: pull_item_baseline quiet_skip quiet_skip_edited split: option.splits)
next
  case False
  with assms have "DRY_RUN fl" by simp
  then show ?thesis using False
    by (simp add: pull_item_def Let_def quiet_skip quiet_skip_edited split: option.splits)
qed

lemma pull_jobs_loop_quiet:
  assumes "isBaseline \<or> DRY_RUN fl"
  shows "\<exists>st'. pull_jobs_loop fl ev isBaseline pages st = Inr st' \<and> quiet st st'"
proof (induction pages arbitrary: st)
  case Nil
  show ?case by (simp add: quiet_refl)
next
  case (Cons pg pages)
  obtain st1 where s1: "pull_job fl ev isBaseline pg st = Inr st1" "quiet st st1"
    using pull_job_quiet[OF assms] by blast
  obtain st2 where s2: "pull_jobs_loop fl ev isBaseline pages st1 = Inr st2" "quiet st1 st2"
    using Cons.IH by blast
  show ?case using s1 s2 quiet_trans by auto
qed

lemma pull_items_loop_quiet:
  assumes "isBaseline \<or> DRY_RUN fl"
  shows "\<exists>st'. pull_items_loop fl ev ent isBaseline pages st = Inr st' \<and> quiet st st'"
proof (induction pages arbitrary: st)
  case Nil
  show ?case by (simp add: quiet_refl)
next
  case (Cons pg pages)
  obtain st1 where s1: "pull_item fl ev ent isBaseline pg st = Inr st1" "quiet st st1"
    using pull_item_quiet[OF assms] by blast
  obtain st2 where s2: "pull_items_loop fl ev ent isBaseline pages st1 = Inr st2" "quiet st1 st2"
    using Cons.IH by blast
  show ?case using s1 s2 quiet_trans by auto
qed

lemma quiet_start: "quiet (start m d) st \<Longrightarrow> untouched m d st"
  by (simp add: quiet_def untouched_def start_def)

lemma pullJobs_untouched:
  assumes "\<not> present (lastSyncTime m) \<or> DRY_RUN fl"
  shows "case pullJobs fl ev cfg fetch m t of
           Inl e \<Rightarrow> fetch_pages fl fetch Jobs m = Inl e
         | Inr st \<Rightarrow> untouched m t st"
proof (cases "present (jobs_db cfg)")
  case False
  then show ?thesis by (simp add: pullJobs_def quiet_start quiet_refl)
next
  case True
  show ?thesis
  proof (cases "fetch_pages fl fetch Jobs m")
    case (Inl e)
    then show ?thesis using True by (simp add: pullJobs_def)
  next
    case (Inr pages)
    obtain st' where
      "pull_jobs_loop fl ev (\<not> present (lastSyncTime m)) pages (start m t) = Inr st'"
      "quiet (start m t) st'"
      using pull_jobs_loop_quiet[of "\<not> present (lastSyncTime m)" fl] assms by blast
    then show ?thesis using True Inr by (simp add: pullJobs_def quiet_start)
  qed
qed

lemma pull_entity_untouched:
  assumes "\<not> present (lastSyncTime m) \<or> DRY_RUN fl"
  shows "case pull_entity fl ev cfg fetch ent m items of
           Inl e \<Rightarrow> fetch_pages fl fetch ent m = Inl e
         | Inr st \<Rightarrow> untouched m items st"
proof (cases "present (database ent cfg)")
  case False
  then show ?thesis by (simp add: pull_entity_def quiet_start quiet_refl)
next
  case True
  show ?thesis
  proof (cases "fetch_pages fl fetch ent m")
    case (Inl e)
    then show ?thesis using True by (simp add: pull_entity_def)
  next
    case (Inr pages)
    obtain st' where
      "pull_items_loop fl ev ent (\<not> present (lastSyncTime m)) pages (start m items) = Inr st'"
      "quiet (start m items) st'"
      using pull_items_loop_quiet[of "\<not> present (lastSyncTime m)" fl] assms by blast
    then show ?thesis using True Inr by (simp add: pull_entity_def quiet_start)
  qed
qed

text \<open>
  C4. On a run with no watermark, each pull pass either ends the run with the error of
  its fetch or leaves its local collection as it was, pulls nothing, moves no folder,
  and leaves the sync map as it was up to the remote edit times of entries: no key, no
  remote id, no hash and no reverse-index entry is added, removed or changed. Page by
  page, a page whose reverse-index entry leads to a Sync State Entry has its edit time
  recorded in that entry, and any other page changes nothing.
\<close>

theorem baseline_pull_safe:
  assumes "\<not> present (lastSyncTime m)"
  shows "(case pullJobs fl ev cfg fetch m t of
            Inl e \<Rightarrow> fetch_pages fl fetch Jobs m = Inl e
          | Inr st \<Rightarrow> untouched m t st)
       \<and> (case pullContacts fl ev cfg fetch m cs of
            Inl e \<Rightarrow> fetch_pages fl fetch Contacts m = Inl e
          | Inr st \<Rightarrow> untouched m cs st)
       \<and> (case pullTasks fl ev cfg fetch m ts of
            Inl e \<Rightarrow> fetch_pages fl fetch Tasks m = Inl e
          | Inr st \<Rightarrow> untouched m ts st)
       \<and> pull_job fl ev True pg jst =
           Inr (skip (case sync_entry_of Jobs (pmap jst) (existing_key Jobs (pmap jst) (page_id pg)) of
                        None \<Rightarrow> jst
                      | Some e \<Rightarrow>
                          jst\<lparr>pmap := set_edited Jobs (the (existing_key Jobs (pmap jst) (page_id pg)))
                                         (last_edited_time pg) (pmap jst)\<rparr>))
       \<and> pull_item fl ev ent True pg ist =
           Inr (skip (case sync_entry_of ent (pmap ist) (existing_key ent (pmap ist) (page_id pg)) of
                        None \<Rightarrow> ist
                      | Some e \<Rightarrow>
                          ist\<lparr>pmap := set_edited ent (the (existing_key ent (pmap ist) (page_id pg)))
                                         (last_edited_time pg) (pmap ist)\<rparr>))"
  using assms pullJobs_untouched[where m=m and fl=fl and ev=ev and cfg=cfg and fetch=fetch and t=t]
    pull_entity_untouched[where m=m and fl=fl and ev=ev and cfg=cfg and fetch=fetch
      and ent=Contacts and items=cs]
    pull_entity_untouched[where m=m and fl=fl and ev=ev and cfg=cfg and fetch=fetch
      and ent=Tasks and items=ts]
    pull_job_baseline[of fl ev pg jst] pull_item_baseline[of fl ev ent pg ist]
  by (simp add: pullContacts_def pullTasks_def)

lemma baseline_example:
  "pullJobs (run_flags False) example_env all_dbs
          (fetch_one (page_acme ''Engineer'' (Some ''Closed'') ''2026-01-20T10:00:00.000Z''))
          (map_acme None ''Engineer'' None None) (tracker_acme ''Engineer'' ''Onsite'')
   = Inr \<lparr>pmap = map_acme None ''Engineer'' None (Some ''2026-01-20T10:00:00.000Z''),
          local_data = tracker_acme ''Engineer'' ''Onsite'', pulled = 0, skippedCount = 1, fs_log = []\<rparr>"
  by code_simp

theorem baseline_pull_safe_witness:
  "\<not> present (lastSyncTime (map_acme None ''Engineer'' None None))
   \<and> pullJobs (run_flags False) example_env all_dbs
          (fetch_one (page_acme ''Engineer'' (Some ''Closed'') ''2026-01-20T10:00:00.000Z''))
          (map_acme None ''Engineer'' None None) (tracker_acme ''Engineer'' ''Onsite'')
      = Inr \<lparr>pmap = map_acme None ''Engineer'' None (Some ''2026-01-20T10:00:00.000Z''),
          local_data = tracker_acme ''Engineer'' ''Onsite'', pulled = 0, skippedCount = 1, fs_log = []\<rparr>
   \<and> untouched (map_acme None ''Engineer'' None None) (tracker_acme ''Engineer'' ''Onsite'')
        \<lparr>pmap = map_acme None ''Engineer'' None (Some ''2026-01-20T10:00:00.000Z''),
          local_data = tracker_acme ''Engineer'' ''Onsite'', pulled = 0, skippedCount = 1, fs_log = []\<rparr>"
  using baseline_pull_safe
    [where m = "map_acme None ''Engineer'' None None" and fl = "run_flags False"
       and ev = example_env and cfg = all_dbs
       and fetch = "fetch_one (page_acme ''Engineer'' (Some ''Closed'') ''2026-01-20T10:00:00.000Z'')"
       and t = "tracker_acme ''Engineer'' ''Onsite''"]
  by (simp add: baseline_example) (simp add: map_acme_def present_def)

subsection \<open>Interaction merge\<close>











subsection \<open>Conflicts\<close>



lemma entries_set_entries: "entries ent (set_entries ent es m) = es"
  by (cases ent) simp_all









subsection \<open>Reclassification\<close>

text \<open>
  C6. The claim is that a reclassification removes the entity from its old bucket. The
  code looks the entity up with \<^verbatim>\<open>findJobInTracker\<close>, which splits the stored key at
  every colon, while \<^verbatim>\<open>getJobLocalId\<close> builds the key by joining status, company and
  role with colons. For a job whose role is \<^verbatim>\<open>Engineer: Platform\<close> the lookup reads the
  role as \<^verbatim>\<open>Engineer\<close> and finds nothing: when the remote status changes to Closed and
  the local job is unchanged, the job stays in the active bucket and a copy of it is
  added to the closed one.
\<close>

theorem reclassify_colon_key_duplicates:
  "getJobLocalId (job_acme ''Engineer: Platform'' ''Applied'') ''Active''
     = ''Active:Acme:Engineer: Platform''
   \<and> hashItem example_digest (job_acme ''Engineer: Platform'' ''Applied'') = ''xfpi''
   \<and> findJobInTracker (tracker_acme ''Engineer: Platform'' ''Applied'')
         ''Active:Acme:Engineer: Platform'' = None
   \<and> pull_job (run_flags False) example_env False
         (page_acme ''Engineer: Platform'' (Some ''Closed'') ''2026-01-20T10:00:00.000Z'')
         (start (map_acme (Some ''2026-01-15T08:00:00.000Z'') ''Engineer: Platform''
                   (Some ''xfpi'') (Some ''2026-01-14T08:00:00.000Z''))
                (tracker_acme ''Engineer: Platform'' ''Applied''))
       = Inr \<lparr>pmap =
                \<lparr>lastSyncTime = Some ''2026-01-15T08:00:00.000Z'',
                 jobs = [(''Closed:Acme:Engineer: Platform'',
                          entry_acme ''Engineer: Platform'' (Some ''xfpi'')
                            (Some ''2026-01-20T10:00:00.000Z''))],
                 contacts = [], tasks = [],
                 notionToLocal =
                   [(''page-1'', \<lparr>etype = ''jobs'', ekey = ''Closed:Acme:Engineer: Platform''\<rparr>)]\<rparr>,
              local_data =
                \<lparr>active = [job_acme ''Engineer: Platform'' ''Applied''], skipped = [],
                 closed = [job_acme ''Engineer: Platform'' ''Applied'']\<rparr>,
              pulled = 1, skippedCount = 0, fs_log = []\<rparr>"
  by code_simp

subsection \<open>Retry on capacity errors\<close>

















subsection \<open>Dry run\<close>

lemma push_item_dry:
  "DRY_RUN fl \<Longrightarrow> smap (push_item fl sha remote ent db x st) = smap st
     \<and> pnet (push_item fl sha remote ent db x st) = pnet st"
  by (simp add: push_item_def Let_def)

lemma push_items_dry:
  "DRY_RUN fl \<Longrightarrow> smap (push_items fl sha remote ent db xs st) = smap st
     \<and> pnet (push_items fl sha remote ent db xs st) = pnet st"
  by (induction xs arbitrary: st) (simp_all add: push_item_dry)

lemma archive_fold_dry:
  "DRY_RUN fl \<Longrightarrow> foldl (\<lambda>s' d. archive_item fl remote ent d s') s ds = s"
  by (induction ds arbitrary: s) (simp_all add: archive_item_def)

lemma push_entity_dry: "DRY_RUN fl \<Longrightarrow> push_entity fl sha remote cfg ent items s = s"
  by (simp add: push_entity_def Let_def push_items_dry handleDeletions_def archive_fold_dry)

lemma push_phase_dry: "DRY_RUN fl \<Longrightarrow> push_phase fl ev cfg remote mem = mem"
  by (simp add: push_phase_def pushJobs_def pushContacts_def pushTasks_def push_entity_dry)

lemma pull_phase_dry:
  assumes "DRY_RUN fl"
  shows "case pull_phase fl ev cfg fetch mem of
           Inl e \<Rightarrow> True
         | Inr (mem', n) \<Rightarrow>
             n = 0 \<and> trackerData mem' = trackerData mem \<and> networkData mem' = networkData mem
             \<and> tasksData mem' = tasksData mem \<and> traffic mem' = traffic mem
             \<and> fs_calls mem' = fs_calls mem
             \<and> same_but_edited (syncMap mem) (syncMap mem')"
proof (cases "pullJobs fl ev cfg fetch (syncMap mem) (trackerData mem)")
  case (Inl e)
  then show ?thesis by (simp add: pull_phase_def)
next
  case js: (Inr js)
  have uj: "untouched (syncMap mem) (trackerData mem) js"
    using pullJobs_untouched[where m="syncMap mem" and fl=fl and ev=ev and cfg=cfg
        and fetch=fetch and t="trackerData mem"] assms js by simp
  show ?thesis
  proof (cases "pullContacts fl ev cfg fetch (pmap js) (networkData mem)")
    case (Inl e)
    then show ?thesis using js by (simp add: pull_phase_def)
  next
    case cs: (Inr cs)
    have uc: "untouched (pmap js) (networkData mem) cs"
      using pull_entity_untouched[where m="pmap js" and fl=fl and ev=ev and cfg=cfg
          and fetch=fetch and ent=Contacts and items="networkData mem"] assms cs
      by (simp add: pullContacts_def)
    show ?thesis
    proof (cases "pullTasks fl ev cfg fetch (pmap cs) (tasksData mem)")
      case (Inl e)
      then show ?thesis using js cs by (simp add: pull_phase_def)
    next
      case ts: (Inr ts)
      have ut: "untouched (pmap cs) (tasksData mem) ts"
        using pull_entity_untouched[where m="pmap cs" and fl=fl and ev=ev and cfg=cfg
            and fetch=fetch and ent=Tasks and items="tasksData mem"] assms ts
        by (simp add: pullTasks_def)
      have j: "local_data js = trackerData mem" "pulled js = 0" "fs_log js = []"
          "same_but_edited (syncMap mem) (pmap js)"
        using uj unfolding untouched_def by simp_all
      have c: "local_data cs = networkData mem" "pulled cs = 0"
          "same_but_edited (pmap js) (pmap cs)"
        using uc unfolding untouched_def by simp_all
      have t: "local_data ts = tasksData mem" "pulled ts = 0"
          "same_but_edited (pmap cs) (pmap ts)"
        using ut unfolding untouched_def by simp_all
      have s: "same_but_edited (syncMap mem) (pmap ts)"
        using same_but_edited_trans[OF same_but_edited_trans[OF j(4) c(3)] t(3)] .
      have "pull_phase fl ev cfg fetch mem =
              Inr (mem\<lparr>syncMap := pmap ts, trackerData := local_data js,
                        networkData := local_data cs, tasksData := local_data ts,
                        fs_calls := fs_calls mem @ fs_log js\<rparr>,
                   pulled js + pulled cs + pulled ts)"
        by (simp add: pull_phase_def js cs ts)
      then show ?thesis using j c t s by simp
    qed
  qed
qed

text \<open>
  C9 (amended). In a dry run nothing is written to disk, however the run ends. When it
  completes, the local collections, the reverse index, the watermark and the keys,
  remote ids and hashes of all Sync State Entries are as they were loaded, the push
  phase sent no request and no folder was moved; of the state in memory only the
  remote edit times of entries may differ from what was loaded.
\<close>

theorem dry_run_no_mutation:
  assumes "DRY_RUN fl"
  shows "snd (main fl ev cfg fetch remote d) = d
       \<and> (case fst (main fl ev cfg fetch remote d) of
            Inl e \<Rightarrow> True
          | Inr mem \<Rightarrow>
              trackerData mem = tracker_json d \<and> networkData mem = network_json d
              \<and> tasksData mem = tasks_json d
              \<and> same_but_edited (sync_map_json d) (syncMap mem)
              \<and> sent (traffic mem) = [] \<and> fs_calls mem = [])"
proof (cases "PUSH_ONLY fl")
  case True
  then show ?thesis using assms
    by (simp add: main_def Let_def push_phase_dry load_def same_but_edited_refl)
next
  case False
  show ?thesis
  proof (cases "pull_phase fl ev cfg fetch (load d)")
    case (Inl e)
    then show ?thesis using False by (simp add: main_def)
  next
    case (Inr r)
    obtain mem1 n where r: "r = (mem1, n)" by (cases r)
    have p: "n = 0 \<and> trackerData mem1 = tracker_json d \<and> networkData mem1 = network_json d
        \<and> tasksData mem1 = tasks_json d \<and> traffic mem1 = \<lparr>sent = [], waits = []\<rparr>
        \<and> fs_calls mem1 = [] \<and> same_but_edited (sync_map_json d) (syncMap mem1)"
      using pull_phase_dry[OF assms, where ev=ev and cfg=cfg and fetch=fetch and mem="load d"] Inr r
      by (simp add: load_def)
    show ?thesis using False Inr r p assms
      by (simp add: main_def Let_def push_phase_dry)
  qed
qed

lemma dry_run_example:
  "main (run_flags True) example_env all_dbs
     (fetch_one (page_acme ''Engineer'' (Some ''Active'') ''2026-01-20T10:00:00.000Z'')) remote_ok
     (disk_acme (map_acme None ''Engineer'' None None) ''Engineer'' ''Onsite'')
   = (Inr \<lparr>syncMap = map_acme None ''Engineer'' None (Some ''2026-01-20T10:00:00.000Z''),
            trackerData = tracker_acme ''Engineer'' ''Onsite'', networkData = [], tasksData = [],
            traffic = \<lparr>sent = [], waits = []\<rparr>, fs_calls = []\<rparr>,
      disk_acme (map_acme None ''Engineer'' None None) ''Engineer'' ''Onsite'')"
  by code_simp

theorem dry_run_no_mutation_witness:
  "DRY_RUN (run_flags True)
   \<and> snd (main (run_flags True) example_env all_dbs
          (fetch_one (page_acme ''Engineer'' (Some ''Active'') ''2026-01-20T10:00:00.000Z'')) remote_ok
          (disk_acme (map_acme None ''Engineer'' None None) ''Engineer'' ''Onsite''))
       = disk_acme (map_acme None ''Engineer'' None None) ''Engineer'' ''Onsite''
   \<and> same_but_edited (map_acme None ''Engineer'' None None)
         (map_acme None ''Engineer'' None (Some ''2026-01-20T10:00:00.000Z''))"
  using dry_run_no_mutation
    [where fl = "run_flags True" and ev = example_env and cfg = all_dbs
       and fetch = "fetch_one (page_acme ''Engineer'' (Some ''Active'') ''2026-01-20T10:00:00.000Z'')"
       and remote = remote_ok
       and d = "disk_acme (map_acme None ''Engineer'' None None) ''Engineer'' ''Onsite''"]
  by (simp add: dry_run_example) (simp add: run_flags_def disk_acme_def)

text \<open>
  C9 as stated has the Sync State Entries in memory exactly as loaded. The baseline and
  the conflict branch of a pull pass write the remote edit time into the entry before
  any test of the dry-run flag: here a dry first run loads an entry with no remote edit
  time and ends with the page's edit time in it.
\<close>

theorem dry_run_touches_entry_counterexample:
  "DRY_RUN (run_flags True)
   \<and> fst (main (run_flags True) example_env all_dbs
          (fetch_one (page_acme ''Engineer'' (Some ''Active'') ''2026-01-20T10:00:00.000Z'')) remote_ok
          (disk_acme (map_acme None ''Engineer'' None None) ''Engineer'' ''Onsite''))
       = Inr \<lparr>syncMap = map_acme None ''Engineer'' None (Some ''2026-01-20T10:00:00.000Z''),
              trackerData = tracker_acme ''Engineer'' ''Onsite'', networkData = [], tasksData = [],
              traffic = \<lparr>sent = [], waits = []\<rparr>, fs_calls = []\<rparr>
   \<and> map_acme None ''Engineer'' None (Some ''2026-01-20T10:00:00.000Z'')
       \<noteq> sync_map_json (disk_acme (map_acme None ''Engineer'' None None) ''Engineer'' ''Onsite'')"
  by (simp add: dry_run_example) (simp add: run_flags_def disk_acme_def map_acme_def entry_acme_def)

subsection \<open>Status of a pulled job\<close>













subsection \<open>Deletion handling\<close>

lemma entries_notionToLocal_update:
  "entries ent (m\<lparr>notionToLocal := r\<rparr>) = entries ent m"
  by (cases ent) simp_all

lemma notionToLocal_set_entries: "notionToLocal (set_entries ent es m) = notionToLocal m"
  by (cases ent) simp_all

lemma map_of_delete_same: "map_of (AList.delete k es) k = None"
  by (simp add: delete_conv')

lemma map_of_delete_other: "k' \<noteq> k \<Longrightarrow> map_of (AList.delete k es) k' = map_of es k'"
  by (simp add: delete_conv')

text \<open>
  C7. Without \<^verbatim>\<open>--apply-deletes\<close> deletion handling returns the sync map and the
  transport log as they are: nothing is deleted and no request is sent. With the flag
  it handles the candidates one by one. For one candidate outside a dry run: when the
  archive request is rejected, the sync map stays as it is; when it resolves, exactly
  the entry under the candidate's key and the reverse-index entry under its remote id
  are removed.
\<close>

theorem deletions_opt_in:
  "(\<not> APPLY_DELETES fl \<longrightarrow> handleDeletions fl remote deletions ent s = s)
   \<and> (APPLY_DELETES fl \<longrightarrow>
        handleDeletions fl remote deletions ent s
        = foldl (\<lambda>s' d. archive_item fl remote ent d s') s deletions)
   \<and> (DRY_RUN fl \<longrightarrow> archive_item fl remote ent (k, nid) s = s)
   \<and> (\<not> DRY_RUN fl \<longrightarrow>
        (case notionRequest remote (''PATCH'', ''/pages/'' @ nid, Archived) (snd s) of
           (Inl e, n') \<Rightarrow> archive_item fl remote ent (k, nid) s = (fst s, n')
         | (Inr r, n') \<Rightarrow>
             snd (archive_item fl remote ent (k, nid) s) = pause n'
             \<and> map_of (entries ent (fst (archive_item fl remote ent (k, nid) s))) k = None
             \<and> map_of (notionToLocal (fst (archive_item fl remote ent (k, nid) s))) nid = None
             \<and> (\<forall>k'. k' \<noteq> k \<longrightarrow>
                   map_of (entries ent (fst (archive_item fl remote ent (k, nid) s))) k'
                   = map_of (entries ent (fst s)) k')
             \<and> (\<forall>p. p \<noteq> nid \<longrightarrow>
                   map_of (notionToLocal (fst (archive_item fl remote ent (k, nid) s))) p
                   = map_of (notionToLocal (fst s)) p)
             \<and> (\<forall>ent'. ent' \<noteq> ent \<longrightarrow>
                   entries ent' (fst (archive_item fl remote ent (k, nid) s)) = entries ent' (fst s))
             \<and> lastSyncTime (fst (archive_item fl remote ent (k, nid) s)) = lastSyncTime (fst s)))"
proof (intro conjI impI)
  show "\<not> APPLY_DELETES fl \<Longrightarrow> handleDeletions fl remote deletions ent s = s"
    by (simp add: handleDeletions_def)
  show "APPLY_DELETES fl \<Longrightarrow> handleDeletions fl remote deletions ent s
        = foldl (\<lambda>s' d. archive_item fl remote ent d s') s deletions"
    by (simp add: handleDeletions_def)
  show "DRY_RUN fl \<Longrightarrow> archive_item fl remote ent (k, nid) s = s"
    by (simp add: archive_item_def)
next
  assume nd: "\<not> DRY_RUN fl"
  obtain res n' where rq: "notionRequest remote (''PATCH'', ''/pages/'' @ nid, Archived) (snd s) = (res, n')"
    by (cases "notionRequest remote (''PATCH'', ''/pages/'' @ nid, Archived) (snd s)")
  show "case notionRequest remote (''PATCH'', ''/pages/'' @ nid, Archived) (snd s) of
           (Inl e, n') \<Rightarrow> archive_item fl remote ent (k, nid) s = (fst s, n')
         | (Inr r, n') \<Rightarrow>
             snd (archive_item fl remote ent (k, nid) s) = pause n'
             \<and> map_of (entries ent (fst (archive_item fl remote ent (k, nid) s))) k = None
             \<and> map_of (notionToLocal (fst (archive_item fl remote ent (k, nid) s))) nid = None
             \<and> (\<forall>k'. k' \<noteq> k \<longrightarrow>
                   map_of (entries ent (fst (archive_item fl remote ent (k, nid) s))) k'
                   = map_of (entries ent (fst s)) k')
             \<and> (\<forall>p. p \<noteq> nid \<longrightarrow>
                   map_of (notionToLocal (fst (archive_item fl remote ent (k, nid) s))) p
                   = map_of (notionToLocal (fst s)) p)
             \<and> (\<forall>ent'. ent' \<noteq> ent \<longrightarrow>
                   entries ent' (fst (archive_item fl remote ent (k, nid) s)) = entries ent' (fst s))
             \<and> lastSyncTime (fst (archive_item fl remote ent (k, nid) s)) = lastSyncTime (fst s)"
  proof (cases res)
    case (Inl e)
    then show ?thesis using nd rq by (simp add: archive_item_def)
  next
    case (Inr r)
    have a: "archive_item fl remote ent (k, nid) s
             = ((set_entries ent (AList.delete k (entries ent (fst s))) (fst s))
                  \<lparr>notionToLocal := AList.delete nid (notionToLocal (fst s))\<rparr>, pause n')"
      using nd rq Inr by (simp add: archive_item_def)
    have other: "\<forall>ent'. ent' \<noteq> ent \<longrightarrow>
        entries ent' ((set_entries ent (AList.delete k (entries ent (fst s))) (fst s))
                  \<lparr>notionToLocal := AList.delete nid (notionToLocal (fst s))\<rparr>) = entries ent' (fst s)"
    proof (intro allI impI)
      fix ent' :: entity assume "ent' \<noteq> ent"
      then show "entries ent' ((set_entries ent (AList.delete k (entries ent (fst s))) (fst s))
                  \<lparr>notionToLocal := AList.delete nid (notionToLocal (fst s))\<rparr>) = entries ent' (fst s)"
        by (cases ent; cases ent') simp_all
    qed
    have lst: "lastSyncTime ((set_entries ent (AList.delete k (entries ent (fst s))) (fst s))
                  \<lparr>notionToLocal := AList.delete nid (notionToLocal (fst s))\<rparr>) = lastSyncTime (fst s)"
      by (cases ent) simp_all
    show ?thesis
      using rq Inr other lst unfolding a
      by (simp add: entries_notionToLocal_update entries_set_entries map_of_delete_same
          map_of_delete_other)
  qed
qed


lemma archive_examples:
  "notionRequest remote_ok (''PATCH'', ''/pages/'' @ ''page-1'', Archived) \<lparr>sent = [], waits = []\<rparr>
     = (Inr (JObj [(''id'', JStr ''page-9''), (''last_edited_time'', JStr ''2026-02-01T09:00:01.000Z'')]),
        \<lparr>sent = [archive_acme], waits = []\<rparr>)
   \<and> notionRequest remote_busy (''PATCH'', ''/pages/'' @ ''page-1'', Archived) \<lparr>sent = [], waits = []\<rparr>
     = (Inl (ApiError ''429: Rate limited''),
        \<lparr>sent = [archive_acme, archive_acme, archive_acme, archive_acme],
         waits = [Some 1500, Some 2000, Some 2500]\<rparr>)
   \<and> archive_item apply_deletes remote_ok Jobs (''Active:Acme:Engineer'', ''page-1'')
         (map_acme (Some ''2026-01-15T08:00:00.000Z'') ''Engineer'' (Some ''dajj'') None,
          \<lparr>sent = [], waits = []\<rparr>)
     = (empty_map (Some ''2026-01-15T08:00:00.000Z''), \<lparr>sent = [archive_acme], waits = [Some 350]\<rparr>)
   \<and> \<not> DRY_RUN apply_deletes \<and> APPLY_DELETES apply_deletes \<and> \<not> APPLY_DELETES push_only"
  by code_simp

theorem deletions_opt_in_witness:
  "handleDeletions push_only remote_ok [(''Active:Acme:Engineer'', ''page-1'')] Jobs
       (map_acme (Some ''2026-01-15T08:00:00.000Z'') ''Engineer'' (Some ''dajj'') None,
        \<lparr>sent = [], waits = []\<rparr>)
     = (map_acme (Some ''2026-01-15T08:00:00.000Z'') ''Engineer'' (Some ''dajj'') None,
        \<lparr>sent = [], waits = []\<rparr>)
   \<and> archive_item apply_deletes remote_busy Jobs (''Active:Acme:Engineer'', ''page-1'')
         (map_acme (Some ''2026-01-15T08:00:00.000Z'') ''Engineer'' (Some ''dajj'') None,
          \<lparr>sent = [], waits = []\<rparr>)
     = (map_acme (Some ''2026-01-15T08:00:00.000Z'') ''Engineer'' (Some ''dajj'') None,
        \<lparr>sent = [archive_acme, archive_acme, archive_acme, archive_acme],
         waits = [Some 1500, Some 2000, Some 2500]\<rparr>)
   \<and> map_of (jobs (fst (archive_item apply_deletes remote_ok Jobs (''Active:Acme:Engineer'', ''page-1'')
         (map_acme (Some ''2026-01-15T08:00:00.000Z'') ''Engineer'' (Some ''dajj'') None,
          \<lparr>sent = [], waits = []\<rparr>)))) ''Active:Acme:Engineer'' = None
   \<and> map_of (notionToLocal (fst (archive_item apply_deletes remote_ok Jobs (''Active:Acme:Engineer'', ''page-1'')
         (map_acme (Some ''2026-01-15T08:00:00.000Z'') ''Engineer'' (Some ''dajj'') None,
          \<lparr>sent = [], waits = []\<rparr>)))) ''page-1'' = None"
  using deletions_opt_in
      [where fl = push_only and remote = remote_ok
         and deletions = "[(''Active:Acme:Engineer'', ''page-1'')]" and ent = Jobs
         and s = "(map_acme (Some ''2026-01-15T08:00:00.000Z'') ''Engineer'' (Some ''dajj'') None,
                   \<lparr>sent = [], waits = []\<rparr>)"]
    deletions_opt_in
      [where fl = apply_deletes and remote = remote_busy and ent = Jobs
         and k = "''Active:Acme:Engineer''" and nid = "''page-1''"
         and s = "(map_acme (Some ''2026-01-15T08:00:00.000Z'') ''Engineer'' (Some ''dajj'') None,
                   \<lparr>sent = [], waits = []\<rparr>)"]
    deletions_opt_in
      [where fl = apply_deletes and remote = remote_ok and ent = Jobs
         and k = "''Active:Acme:Engineer''" and nid = "''page-1''"
         and s = "(map_acme (Some ''2026-01-15T08:00:00.000Z'') ''Engineer'' (Some ''dajj'') None,
                   \<lparr>sent = [], waits = []\<rparr>)"]
    archive_examples
  by simp

subsection \<open>Push\<close>

























subsection \<open>Further properties\<close>

lemma serialize_members:
  "map_of (map (\<lambda>(k, v). (k, serialize K v)) kvs) k = map_option (serialize K) (map_of kvs k)"
  by (induction kvs) auto

lemma serialize_object_map_of:
  "map_of kvs = map_of kvs' \<Longrightarrow> serialize K (JObj kvs) = serialize K (JObj kvs')"
  by (simp add: serialize_members)

lemma sorted_keys_set:
  "set (map fst a) = set (map fst b) \<Longrightarrow> sort (object_keys a) = sort (object_keys b)"
  by (intro sorted_distinct_set_unique) (simp_all add: object_keys_def)

text \<open>
  Hash order-independence: two records with the same properties, written in any order,
  have the same canonical hash.
\<close>

theorem hashItem_order_independent:
  assumes "distinct (map fst a)" and "distinct (map fst b)" and "set a = set b"
  shows "hashItem sha a = hashItem sha b"
proof -
  have m: "map_of a = map_of b" using assms by (simp add: map_of_inject_set)
  have "set (map fst a) = set (map fst b)" using assms(3) by simp
  then have k: "sort (object_keys a) = sort (object_keys b)" by (rule sorted_keys_set)
  show ?thesis unfolding hashItem_def k using serialize_object_map_of[OF m] by simp
qed

theorem hashItem_order_independent_witness:
  "hashItem example_digest [(''company'', JStr ''Acme''), (''role'', JStr ''Engineer'')]
   = hashItem example_digest [(''role'', JStr ''Engineer''), (''company'', JStr ''Acme'')]"
  using hashItem_order_independent
    [of "[(''company'', JStr ''Acme''), (''role'', JStr ''Engineer'')]"
        "[(''role'', JStr ''Engineer''), (''company'', JStr ''Acme'')]" example_digest]
  by auto

text \<open>
  Reclassification of a job that \<^verbatim>\<open>findJobInTracker\<close> locates: the entity leaves its old
  bucket at the index found and is appended to the bucket of the remote status, the
  entry under the old key is deleted and one under the new key is written, and the
  reverse index maps the page to the new key.
\<close>

theorem reclassify_moves_found_job:
  assumes "findJobInTracker (local_data st) k = Some (b, i, j)"
    and "move_folder ev (jget j ''folder'') notionJob notionStatus (fs_log st) = Inr (job', log')"
    and "arrayMap notionStatus = Some b'"
    and "k \<noteq> getJobLocalId notionJob notionStatus"
  shows "\<exists>st'. reclassify ev pg k notionJob notionStatus st = Inr st'
     \<and> local_data st'
         = (let t1 = set_bucket b (take i (bucket_of b (local_data st))
                                   @ drop (Suc i) (bucket_of b (local_data st))) (local_data st)
            in set_bucket b' (bucket_of b' t1 @ [job']) t1)
     \<and> map_of (jobs (pmap st')) k = None
     \<and> map_of (jobs (pmap st')) (getJobLocalId notionJob notionStatus)
         = Some (new_job_entry (page_id pg) (hashItem (sha256 ev) job') (last_edited_time pg) job')
     \<and> map_of (notionToLocal (pmap st')) (page_id pg)
         = Some \<lparr>etype = ''jobs'', ekey = getJobLocalId notionJob notionStatus\<rparr>
     \<and> pulled st' = pulled st + 1"
proof -
  have ni: "notionStatus \<notin> set inherited_names"
    using assms(3) by (auto simp: arrayMap_def inherited_names_def split: if_splits)
  show ?thesis
    using assms ni
    by (simp add: reclassify_def Let_def push_to_target_def update_conv' delete_conv')
qed


lemma reclassify_example_find:
  "findJobInTracker (local_data (start (map_acme (Some ''2026-01-15T08:00:00.000Z'') ''Engineer''
        (Some ''dajj'') (Some ''2026-01-14T08:00:00.000Z'')) (tracker_acme ''Engineer'' ''Applied'')))
     ''Active:Acme:Engineer''
   = Some (Active, 0, job_acme ''Engineer'' ''Applied'')"
  by code_simp

lemma reclassify_example_folder:
  "move_folder example_env (jget (job_acme ''Engineer'' ''Applied'') ''folder'')
     (job_acme ''Engineer'' ''Applied'') ''Closed''
     (fs_log (start (map_acme (Some ''2026-01-15T08:00:00.000Z'') ''Engineer''
        (Some ''dajj'') (Some ''2026-01-14T08:00:00.000Z'')) (tracker_acme ''Engineer'' ''Applied'')))
   = Inr (job_acme ''Engineer'' ''Applied'', [])"
  by code_simp

lemma reclassify_example_bucket: "arrayMap ''Closed'' = Some Closed"
  by code_simp

lemma reclassify_example_key:
  "''Active:Acme:Engineer'' \<noteq> getJobLocalId (job_acme ''Engineer'' ''Applied'') ''Closed''"
  by code_simp

lemma reclassify_example:
  "reclassify example_env (page_acme ''Engineer'' (Some ''Closed'') ''2026-01-20T10:00:00.000Z'')
     ''Active:Acme:Engineer'' (job_acme ''Engineer'' ''Applied'') ''Closed''
     (start (map_acme (Some ''2026-01-15T08:00:00.000Z'') ''Engineer''
        (Some ''dajj'') (Some ''2026-01-14T08:00:00.000Z'')) (tracker_acme ''Engineer'' ''Applied''))
   = Inr \<lparr>pmap =
            \<lparr>lastSyncTime = Some ''2026-01-15T08:00:00.000Z'',
             jobs = [(''Closed:Acme:Engineer'',
                      entry_acme ''Engineer'' (Some ''dajj'') (Some ''2026-01-20T10:00:00.000Z''))],
             contacts = [], tasks = [],
             notionToLocal = [(''page-1'', \<lparr>etype = ''jobs'', ekey = ''Closed:Acme:Engineer''\<rparr>)]\<rparr>,
          local_data = \<lparr>active = [], skipped = [], closed = [job_acme ''Engineer'' ''Applied'']\<rparr>,
          pulled = 1, skippedCount = 0, fs_log = []\<rparr>"
  by code_simp

theorem reclassify_moves_found_job_witness:
  "\<exists>st'. reclassify example_env (page_acme ''Engineer'' (Some ''Closed'') ''2026-01-20T10:00:00.000Z'')
       ''Active:Acme:Engineer'' (job_acme ''Engineer'' ''Applied'') ''Closed''
       (start (map_acme (Some ''2026-01-15T08:00:00.000Z'') ''Engineer''
          (Some ''dajj'') (Some ''2026-01-14T08:00:00.000Z'')) (tracker_acme ''Engineer'' ''Applied''))
     = Inr st'
   \<and> local_data st' = \<lparr>active = [], skipped = [], closed = [job_acme ''Engineer'' ''Applied'']\<rparr>
   \<and> map_of (jobs (pmap st')) ''Active:Acme:Engineer'' = None"
  using reclassify_moves_found_job
    [OF reclassify_example_find reclassify_example_folder reclassify_example_bucket
        reclassify_example_key,
     of "page_acme ''Engineer'' (Some ''Closed'') ''2026-01-20T10:00:00.000Z''"]
    reclassify_example
  by simp

end
